theory Spec2Isabelle
  imports Complex_Main "HOL-Library.AList"
begin

section \<open>Python values used by the pipeline\<close>

text \<open>
  Strings are lists of characters. \<open>str.lower()\<close> is modelled on the ASCII letters
  (\<open>A\<close>..\<open>Z\<close>); every other character is left as it is. All indicator keywords of the
  classifier are lower-case ASCII.
\<close>

definition lower_char :: "char \<Rightarrow> char" where
  "lower_char c =
     (let n = (of_char c :: nat)
      in if 65 \<le> n \<and> n \<le> 90 then char_of (n + 32) else c)"

definition lower :: "string \<Rightarrow> string" where
  "lower s = map lower_char s"

text \<open>Python's \<open>sub in s\<close> on strings: \<open>sub\<close> occurs in \<open>s\<close> as a contiguous block.\<close>

fun starts_with :: "string \<Rightarrow> string \<Rightarrow> bool" where
  "starts_with s [] = True"
| "starts_with [] (p # ps) = False"
| "starts_with (c # cs) (p # ps) = (c = p \<and> starts_with cs ps)"

fun str_in :: "string \<Rightarrow> string \<Rightarrow> bool" where
  "str_in sub [] = (sub = [])"
| "str_in sub (c # cs) = (starts_with (c # cs) sub \<or> str_in sub cs)"

text \<open>\<open>any(indicator in error_str for indicator in indicators)\<close>\<close>

definition any_indicator :: "string list \<Rightarrow> string \<Rightarrow> bool" where
  "any_indicator indicators error_str = list_ex (\<lambda>indicator. str_in indicator error_str) indicators"

text \<open>Decimal rendering of an integer, as an f-string renders an \<open>int\<close>.\<close>

definition digit_char :: "nat \<Rightarrow> char" where
  "digit_char d = char_of (48 + d)"

fun str_nat :: "nat \<Rightarrow> string" where
  "str_nat n = (if n < 10 then [digit_char n] else str_nat (n div 10) @ [digit_char (n mod 10)])"

definition str_int :: "int \<Rightarrow> string" where
  "str_int i = (if i < 0 then CHR ''-'' # str_nat (nat (- i)) else str_nat (nat i))"

text \<open>
  An exception value. Only instances of \<open>Exception\<close> are modelled (what \<open>except Exception\<close>
  catches). \<open>exc_class\<close> records which of the classes tested by \<open>isinstance\<close> in this
  repository the exception belongs to; \<open>type_name\<close> is \<open>type(exception).__name__\<close> and
  \<open>message\<close> is \<open>str(exception)\<close>. From Python 3.11 on \<open>asyncio.TimeoutError\<close> and the
  builtin \<open>TimeoutError\<close> are one class, read here as \<open>AsyncioTimeoutError\<close>;
  \<open>BuiltinTimeoutError\<close> is the separate builtin class of earlier versions.
  \<open>HTTPStatusError\<close> carries \<open>exception.response.status_code\<close>.
\<close>

datatype exc_class =
    ValueError
  | AsyncioTimeoutError
  | BuiltinTimeoutError
  | HttpxTimeoutException
  | HTTPStatusError int
  | OtherException

record pyexc =
  exc_class :: exc_class
  type_name :: string
  message :: string

text \<open>\<open>Exception(msg)\<close>: a plain exception with the given text.\<close>

definition Exception :: "string \<Rightarrow> pyexc" where
  "Exception msg = \<lparr>exc_class = OtherException, type_name = ''Exception'', message = msg\<rparr>"

section \<open>Error classification (app/utils/error_classifier.py)\<close>

datatype ErrorType = USER_ERROR | VALIDATION_ERROR | SERVICE_ERROR | SYSTEM_ERROR | TIMEOUT

text \<open>
  Values stored in the dictionaries (classification result, webhook payload, product
  analysis): an \<open>ErrorType\<close> member, \<open>str\<close>, \<open>bool\<close>, \<open>int\<close>, \<open>float\<close> (a rational here),
  \<open>None\<close> and lists.
\<close>

datatype pyval =
    VErrorType ErrorType | VStr string | VBool bool | VInt int | VRat rat
  | VNone | VList "pyval list"

type_synonym pydict = "(string \<times> pyval) list"

fun ERROR_MESSAGES :: "ErrorType \<Rightarrow> string" where
  "ERROR_MESSAGES USER_ERROR = ''Invalid input provided. Please check your data and try again.''"
| "ERROR_MESSAGES VALIDATION_ERROR = ''Please fix the validation errors and try again.''"
| "ERROR_MESSAGES SERVICE_ERROR = ''The AI service is temporarily unavailable. Your credits will be refunded.''"
| "ERROR_MESSAGES SYSTEM_ERROR = ''A system error occurred. Your credits will be refunded automatically.''"
| "ERROR_MESSAGES TIMEOUT = ''Generation took too long and timed out. Your credits will be refunded.''"

definition validation_indicators :: "string list" where
  "validation_indicators =
     [''validation'', ''invalid'', ''missing required'', ''must be'', ''expected'',
      ''malformed'', ''unsupported format'', ''invalid format'', ''invalid image'',
      ''image too large'', ''image too small'', ''invalid dimensions'', ''corrupt'',
      ''not a valid'']"

definition is_validation_error :: "pyexc \<Rightarrow> string \<Rightarrow> bool" where
  "is_validation_error exception error_str =
     (if exc_class exception = ValueError then True
      else any_indicator validation_indicators error_str)"

definition timeout_indicators :: "string list" where
  "timeout_indicators =
     [''timeout'', ''timed out'', ''deadline exceeded'', ''request timeout'',
      ''connection timeout'', ''read timeout'']"

definition is_timeout_error :: "pyexc \<Rightarrow> string \<Rightarrow> bool" where
  "is_timeout_error exception error_str =
     (if exc_class exception = AsyncioTimeoutError \<or> exc_class exception = BuiltinTimeoutError
      then True
      else if exc_class exception = HttpxTimeoutException then True
      else any_indicator timeout_indicators error_str)"

definition service_indicators :: "string list" where
  "service_indicators =
     [''api error'', ''service unavailable'', ''503'', ''502'', ''504'', ''rate limit'',
      ''quota exceeded'', ''seedream'', ''fal.ai'', ''kie.ai'', ''veo3'', ''provider error'',
      ''external service'', ''downstream'', ''failed to generate'', ''generation failed'',
      ''500 internal server error'']"

definition is_service_error :: "pyexc \<Rightarrow> string \<Rightarrow> bool" where
  "is_service_error exception error_str =
     (case exc_class exception of
        HTTPStatusError status_code \<Rightarrow>
          if status_code \<ge> 500 then True
          else if status_code = 429 then True
          else any_indicator service_indicators error_str
      | _ \<Rightarrow> any_indicator service_indicators error_str)"

definition user_error_indicators :: "string list" where
  "user_error_indicators =
     [''nsfw'', ''inappropriate'', ''prohibited content'', ''policy violation'',
      ''content moderation'', ''restricted content'', ''harmful content'', ''unsafe content'']"

definition is_user_error :: "pyexc \<Rightarrow> string \<Rightarrow> bool" where
  "is_user_error exception error_str = any_indicator user_error_indicators error_str"

definition extract_validation_message :: "pyexc \<Rightarrow> string" where
  "extract_validation_message exception =
     (let error_str = message exception
      in if str_in ''invalid'' (lower error_str) then ''Invalid input: '' @ error_str
         else if str_in ''required'' (lower error_str) then ''Missing required field: '' @ error_str
         else if str_in ''format'' (lower error_str) then ''Invalid format: '' @ error_str
         else ERROR_MESSAGES VALIDATION_ERROR)"

text \<open>
  \<open>classify_error(exception, context)\<close>. The result is the dictionary the source returns,
  as its list of key/value pairs. \<open>context\<close> is accepted and not used, as in the source.
\<close>

definition classify_error :: "pyexc \<Rightarrow> string option \<Rightarrow> pydict" where
  "classify_error exception context =
     (let error_str = lower (message exception);
          exception_type = type_name exception
      in if is_validation_error exception error_str then
           [(''error_type'', VErrorType VALIDATION_ERROR),
            (''error_message'', VStr (extract_validation_message exception)),
            (''is_refundable'', VBool False),
            (''can_retry'', VBool True),
            (''technical_details'', VStr (message exception))]
         else if is_timeout_error exception error_str then
           [(''error_type'', VErrorType TIMEOUT),
            (''error_message'', VStr (ERROR_MESSAGES TIMEOUT)),
            (''is_refundable'', VBool True),
            (''can_retry'', VBool True),
            (''technical_details'', VStr (message exception))]
         else if is_service_error exception error_str then
           [(''error_type'', VErrorType SERVICE_ERROR),
            (''error_message'', VStr (ERROR_MESSAGES SERVICE_ERROR)),
            (''is_refundable'', VBool True),
            (''can_retry'', VBool True),
            (''technical_details'', VStr (message exception))]
         else if is_user_error exception error_str then
           [(''error_type'', VErrorType USER_ERROR),
            (''error_message'', VStr ''Content violates usage policies. Please try with appropriate content.''),
            (''is_refundable'', VBool False),
            (''can_retry'', VBool False),
            (''technical_details'', VStr (message exception))]
         else
           [(''error_type'', VErrorType SYSTEM_ERROR),
            (''error_message'', VStr (ERROR_MESSAGES SYSTEM_ERROR)),
            (''is_refundable'', VBool True),
            (''can_retry'', VBool True),
            (''technical_details'', VStr (exception_type @ '': '' @ message exception))])"

text \<open>\<open>d[key]\<close> on a dictionary.\<close>

definition dict_get :: "pydict \<Rightarrow> string \<Rightarrow> pyval option" where
  "dict_get d k = map_of d k"


section \<open>Provider fallback for stage 3 (app/services/providers/veo3_provider.py)\<close>

text \<open>
  The request object that \<open>_submit_to_kie\<close> and \<open>_submit_to_fal\<close> build for the provider
  clients (the local classes \<open>KieRequest\<close> and \<open>FalRequest\<close>).
\<close>

record request =
  req_image_url :: string
  req_prompt :: string
  req_system_prompt :: string
  req_parameters :: pydict
  req_webhook_url :: "string option"

text \<open>
  What a provider client's \<open>submit_image_to_video_job\<close> returns: \<open>job_id\<close> and, when the
  key is present, \<open>estimated_time\<close>.
\<close>

record job_response =
  resp_job_id :: string
  resp_estimated_time :: "int option"

text \<open>The dictionary returned by \<open>_submit_to_kie\<close> and \<open>_submit_to_fal\<close>.\<close>

record submitted_job =
  sj_job_id :: string
  sj_provider :: string
  sj_estimated_time :: int

text \<open>
  The dictionary returned by \<open>submit_veo3_job\<close>; \<open>primary_error\<close> is \<open>None\<close> when the key
  is absent.
\<close>

record veo3_result =
  job_id :: string
  provider :: string
  estimated_time :: int
  fallback_triggered :: bool
  primary_provider :: string
  primary_error :: "string option"

text \<open>
  An awaited call: the time it takes to finish, in seconds, and how it finishes (a raised
  exception or a returned value).
\<close>

record 'a awaited =
  elapsed :: rat
  outcome :: "pyexc + 'a"

text \<open>The exception \<open>asyncio.wait_for\<close> raises at its deadline; its text is empty.\<close>

definition asyncio_TimeoutError :: pyexc where
  "asyncio_TimeoutError =
     \<lparr>exc_class = AsyncioTimeoutError, type_name = ''TimeoutError'', message = []\<rparr>"

text \<open>
  \<open>asyncio.wait_for(aw, timeout)\<close>: the awaited call's own outcome when it finishes before
  the deadline, \<open>asyncio.TimeoutError\<close> otherwise (a call that has not finished when the
  deadline fires is abandoned).
\<close>

definition wait_for :: "'a awaited \<Rightarrow> int \<Rightarrow> pyexc + 'a" where
  "wait_for aw timeout =
     (if elapsed aw < of_int timeout then outcome aw else Inl asyncio_TimeoutError)"

text \<open>
  Whether the coroutine handed to \<open>asyncio.wait_for\<close> runs at all. With \<open>timeout <= 0\<close>
  \<open>wait_for\<close> cancels the coroutine before its first step and raises
  \<open>asyncio.TimeoutError\<close>: the body of the coroutine, and with it the call to the provider, is
  never executed. With a positive timeout the coroutine is started. (A duration is not
  negative, so nothing finishes before a deadline that is not positive; the first disjunct
  only keeps the two definitions in step on such inputs.)
\<close>

definition started :: "'a awaited \<Rightarrow> int \<Rightarrow> bool" where
  "started aw timeout = (elapsed aw < of_int timeout \<or> 0 < timeout)"

text \<open>Calls to the two provider clients, in the order they are issued.\<close>

datatype provider_call = KieSubmitVideo request | FalSubmitVideo request

fun is_fal_submit :: "provider_call \<Rightarrow> bool" where
  "is_fal_submit (FalSubmitVideo r) = True"
| "is_fal_submit (KieSubmitVideo r) = False"

text \<open>
  The two provider clients held by \<open>Veo3Provider\<close>: how \<open>submit_image_to_video_job\<close> of each
  answers a request. Only the Kie call is bounded by a deadline, so only its duration is
  modelled.
\<close>

record veo3_clients =
  kie_submit_image_to_video_job :: "request \<Rightarrow> job_response awaited"
  fal_submit_image_to_video_job :: "request \<Rightarrow> pyexc + job_response"

definition KieRequest :: "string \<Rightarrow> string \<Rightarrow> bool \<Rightarrow> string \<Rightarrow> string option \<Rightarrow> request" where
  "KieRequest image_url prompt use_fast aspect_ratio webhook_url =
     \<lparr>req_image_url = image_url, req_prompt = prompt, req_system_prompt = [],
      req_parameters = [(''use_fast'', VBool use_fast), (''aspect_ratio'', VStr aspect_ratio),
                        (''enable_translation'', VBool True)],
      req_webhook_url = webhook_url\<rparr>"

definition FalRequest :: "string \<Rightarrow> string \<Rightarrow> int \<Rightarrow> string \<Rightarrow> string option \<Rightarrow> bool \<Rightarrow> request" where
  "FalRequest image_url prompt duration aspect_ratio webhook_url use_fast =
     \<lparr>req_image_url = image_url, req_prompt = prompt, req_system_prompt = [],
      req_parameters = [(''duration'', VInt duration), (''aspect_ratio'', VStr aspect_ratio),
                        (''use_fast'', VBool use_fast)],
      req_webhook_url = webhook_url\<rparr>"

text \<open>\<open>result.get("estimated_time", 120 if use_fast else 240)\<close>\<close>

definition get_estimated_time :: "job_response \<Rightarrow> bool \<Rightarrow> int" where
  "get_estimated_time result use_fast =
     (case resp_estimated_time result of
        Some t \<Rightarrow> t
      | None \<Rightarrow> if use_fast then 120 else 240)"

text \<open>
  \<open>_submit_to_kie\<close>: the call issued and the awaited result. \<open>duration\<close> is a parameter of the
  source function that it does not use.
\<close>

definition submit_to_kie ::
  "veo3_clients \<Rightarrow> string \<Rightarrow> string \<Rightarrow> bool \<Rightarrow> int \<Rightarrow> string \<Rightarrow> string option
     \<Rightarrow> provider_call list \<times> submitted_job awaited" where
  "submit_to_kie clients image_url prompt use_fast duration aspect_ratio webhook_url =
     (let request = KieRequest image_url prompt use_fast aspect_ratio webhook_url;
          aw = kie_submit_image_to_video_job clients request
      in ([KieSubmitVideo request],
          \<lparr>elapsed = elapsed aw,
           outcome =
             (case outcome aw of
                Inl e \<Rightarrow> Inl e
              | Inr result \<Rightarrow>
                  Inr \<lparr>sj_job_id = resp_job_id result, sj_provider = ''kie'',
                       sj_estimated_time = get_estimated_time result use_fast\<rparr>)\<rparr>))"

definition submit_to_fal ::
  "veo3_clients \<Rightarrow> string \<Rightarrow> string \<Rightarrow> int \<Rightarrow> string \<Rightarrow> string option \<Rightarrow> bool
     \<Rightarrow> provider_call list \<times> (pyexc + submitted_job)" where
  "submit_to_fal clients image_url prompt duration aspect_ratio webhook_url use_fast =
     (let request = FalRequest image_url prompt duration aspect_ratio webhook_url use_fast
      in ([FalSubmitVideo request],
          (case fal_submit_image_to_video_job clients request of
             Inl e \<Rightarrow> Inl e
           | Inr result \<Rightarrow>
               Inr \<lparr>sj_job_id = resp_job_id result, sj_provider = ''fal'',
                    sj_estimated_time = get_estimated_time result use_fast\<rparr>)))"

text \<open>\<open>{**result, "fallback_triggered": ..., "primary_provider": ..., ["primary_error": ...]}\<close>\<close>

definition with_fallback_info :: "submitted_job \<Rightarrow> bool \<Rightarrow> string \<Rightarrow> string option \<Rightarrow> veo3_result" where
  "with_fallback_info result triggered primary err =
     \<lparr>job_id = sj_job_id result, provider = sj_provider result,
      estimated_time = sj_estimated_time result,
      fallback_triggered = triggered, primary_provider = primary, primary_error = err\<rparr>"

text \<open>
  The text recorded for a failed primary attempt: the \<open>except asyncio.TimeoutError\<close> branch
  and the \<open>except Exception\<close> branch of \<open>submit_veo3_job\<close>.
\<close>

definition primary_error_text :: "pyexc \<Rightarrow> int \<Rightarrow> string" where
  "primary_error_text e fallback_timeout =
     (if exc_class e = AsyncioTimeoutError
      then ''Kie.ai timed out after '' @ str_int fallback_timeout @ ''s''
      else ''Kie.ai failed: '' @ message e)"

definition all_providers_failed :: "string \<Rightarrow> pyexc \<Rightarrow> pyexc" where
  "all_providers_failed primary_err fal_error =
     Exception (''Veo3 video generation failed on all providers.'' @ [CHR 0x0A]
                @ ''Primary (Kie.ai): '' @ primary_err @ [CHR 0x0A]
                @ ''Fallback (Fal.ai): '' @ message fal_error)"

text \<open>
  \<open>Veo3Provider.submit_veo3_job\<close>. The result is the list of provider calls issued, in
  order, and either the raised exception or the returned dictionary. The Kie submission is
  issued only when \<open>asyncio.wait_for\<close> starts the coroutine \<open>_submit_to_kie(...)\<close>, that is,
  not when \<open>fallback_timeout <= 0\<close>.
\<close>

definition submit_veo3_job ::
  "veo3_clients \<Rightarrow> string \<Rightarrow> string \<Rightarrow> bool \<Rightarrow> int \<Rightarrow> string \<Rightarrow> string option \<Rightarrow> string \<Rightarrow> int
     \<Rightarrow> provider_call list \<times> (pyexc + veo3_result)" where
  "submit_veo3_job clients image_url prompt use_fast duration aspect_ratio webhook_url
       preferred_provider fallback_timeout =
     (if preferred_provider = ''fal'' then
        (case submit_to_fal clients image_url prompt duration aspect_ratio webhook_url use_fast of
           (calls, Inl e) \<Rightarrow> (calls, Inl e)
         | (calls, Inr result) \<Rightarrow> (calls, Inr (with_fallback_info result False ''fal'' None)))
      else
        (case submit_to_kie clients image_url prompt use_fast duration aspect_ratio webhook_url of
           (kie_calls, aw) \<Rightarrow>
             (let issued = (if started aw fallback_timeout then kie_calls else [])
              in case wait_for aw fallback_timeout of
                   Inr result \<Rightarrow> (issued, Inr (with_fallback_info result False ''kie'' None))
                 | Inl e \<Rightarrow>
                     (let primary_err = primary_error_text e fallback_timeout
                      in case submit_to_fal clients image_url prompt duration aspect_ratio
                                webhook_url use_fast of
                           (fal_calls, Inr result) \<Rightarrow>
                             (issued @ fal_calls,
                              Inr (with_fallback_info result True ''kie'' (Some primary_err)))
                         | (fal_calls, Inl fal_error) \<Rightarrow>
                             (issued @ fal_calls,
                              Inl (all_providers_failed primary_err fal_error))))))"

subsection \<open>Concrete provider behaviours (scenarios A and B of the specification, and a double failure)\<close>

definition kie_job :: job_response where
  "kie_job = \<lparr>resp_job_id = ''kie_abc123'', resp_estimated_time = Some 240\<rparr>"

definition fal_job :: job_response where
  "fal_job = \<lparr>resp_job_id = ''fal_xyz789'', resp_estimated_time = None\<rparr>"

definition clients_kie_in_2s :: veo3_clients where
  "clients_kie_in_2s =
     \<lparr>kie_submit_image_to_video_job = (\<lambda>r. \<lparr>elapsed = 2, outcome = Inr kie_job\<rparr>),
      fal_submit_image_to_video_job = (\<lambda>r. Inr fal_job)\<rparr>"

definition clients_kie_stalls :: veo3_clients where
  "clients_kie_stalls =
     \<lparr>kie_submit_image_to_video_job = (\<lambda>r. \<lparr>elapsed = 75, outcome = Inr kie_job\<rparr>),
      fal_submit_image_to_video_job = (\<lambda>r. Inr fal_job)\<rparr>"

definition clients_kie_raises :: veo3_clients where
  "clients_kie_raises =
     \<lparr>kie_submit_image_to_video_job =
        (\<lambda>r. \<lparr>elapsed = 1, outcome = Inl (Exception ''Kie.ai API error (500): boom'')\<rparr>),
      fal_submit_image_to_video_job = (\<lambda>r. Inr fal_job)\<rparr>"

definition clients_both_fail :: veo3_clients where
  "clients_both_fail =
     \<lparr>kie_submit_image_to_video_job =
        (\<lambda>r. \<lparr>elapsed = 1, outcome = Inl (Exception ''Kie.ai API error (500): boom'')\<rparr>),
      fal_submit_image_to_video_job = (\<lambda>r. Inl (Exception ''quota exhausted''))\<rparr>"

section \<open>Polling for completion (fal_provider.py, veo3_provider.py)\<close>

text \<open>
  The dictionary a provider client's \<open>check_status\<close> returns. \<open>sd_result_url\<close> is the value
  under \<open>result_url\<close> (\<open>None\<close> for Python's \<open>None\<close>); \<open>sd_error\<close> is the text under \<open>error\<close>,
  \<open>None\<close> when the key is absent.
\<close>

record status_data =
  sd_status :: string
  sd_result_url :: "string option"
  sd_error :: "string option"

text \<open>
  One turn of a polling loop as the environment presents it: the value \<open>loop.time()\<close>
  returns at the head of the turn, and how each provider client answers
  \<open>check_status(job_id, model)\<close> during the turn (an exception or a status dictionary).
\<close>

record poll_cycle =
  clock :: rat
  fal_check_status :: "string \<Rightarrow> string \<Rightarrow> pyexc + status_data"
  kie_check_status :: "string \<Rightarrow> string \<Rightarrow> pyexc + status_data"

text \<open>What a polling loop does, in order: status probes and sleeps.\<close>

datatype poll_event = CheckStatus string string string | Sleep int

text \<open>
  The outcome of a polling run over the turns observed: \<open>None\<close> when the loop is still
  running after the last observed turn, otherwise the exception raised or the URL returned.
\<close>

type_synonym poll_result = "poll_event list \<times> (pyexc + string) option"

definition emit :: "poll_event list \<Rightarrow> poll_result \<Rightarrow> poll_result" where
  "emit evs r = (evs @ fst r, snd r)"

definition models_to_try :: "string list" where
  "models_to_try =
     [''fal-ai/bytedance/seedream/v4/text-to-image'', ''fal-ai/bytedance/seedream/v4/edit'']"

text \<open>
  The \<open>for model in models_to_try\<close> loop of \<open>FalProvider.wait_for_completion\<close>: the first
  model whose probe does not raise gives \<open>status_data\<close>; a probe that raises moves on to the
  next model.
\<close>

fun try_models ::
  "(string \<Rightarrow> string \<Rightarrow> pyexc + status_data) \<Rightarrow> string \<Rightarrow> string list
     \<Rightarrow> poll_event list \<times> status_data option" where
  "try_models check job [] = ([], None)"
| "try_models check job (model # models) =
     (case check job model of
        Inr sd \<Rightarrow> ([CheckStatus ''fal'' job model], Some sd)
      | Inl e \<Rightarrow>
          (case try_models check job models of
             (evs, r) \<Rightarrow> (CheckStatus ''fal'' job model # evs, r)))"

text \<open>\<open>status_data.get('error', 'Unknown error')\<close>\<close>

definition get_error :: "status_data \<Rightarrow> string" where
  "get_error sd = (case sd_error sd of Some e \<Rightarrow> e | None \<Rightarrow> ''Unknown error'')"

text \<open>
  The part shared by both loops once \<open>status_data\<close> is known: return or raise on COMPLETED,
  raise on FAILED, and \<open>None\<close> when the loop is to sleep and poll again. \<open>failed_prefix\<close> is
  the text before the provider's error in the FAILED message.
\<close>

definition on_status :: "string \<Rightarrow> status_data \<Rightarrow> (pyexc + string) option" where
  "on_status failed_prefix sd =
     (if sd_status sd = ''COMPLETED'' then
        (case sd_result_url sd of
           None \<Rightarrow> Some (Inl (Exception ''Job completed but no result URL found''))
         | Some url \<Rightarrow>
             if url = [] then Some (Inl (Exception ''Job completed but no result URL found''))
             else Some (Inr url))
      else if sd_status sd = ''FAILED'' then
        Some (Inl (Exception (failed_prefix @ get_error sd)))
      else None)"

text \<open>
  \<open>FalProvider.wait_for_completion(job_id, timeout, poll_interval)\<close>. \<open>start_time\<close> is the
  clock value read before the loop; the list holds the turns of the loop.
\<close>

fun fal_wait_for_completion ::
  "string \<Rightarrow> int \<Rightarrow> int \<Rightarrow> rat \<Rightarrow> poll_cycle list \<Rightarrow> poll_result" where
  "fal_wait_for_completion job timeout poll_interval start_time [] = ([], None)"
| "fal_wait_for_completion job timeout poll_interval start_time (c # cs) =
     (if clock c - start_time > of_int timeout then
        ([], Some (Inl (Exception (''Fal.ai job '' @ job @ '' timed out after ''
                                    @ str_int timeout @ ''s''))))
      else
        (case try_models (fal_check_status c) job models_to_try of
           (evs, None) \<Rightarrow>
             emit (evs @ [Sleep poll_interval])
               (fal_wait_for_completion job timeout poll_interval start_time cs)
         | (evs, Some sd) \<Rightarrow>
             (case on_status ''Fal.ai job failed: '' sd of
                Some r \<Rightarrow> (evs, Some r)
              | None \<Rightarrow>
                  emit (evs @ [Sleep poll_interval])
                    (fal_wait_for_completion job timeout poll_interval start_time cs))))"

text \<open>\<open>FalProvider.get_status\<close> and \<open>KieProvider.get_status\<close>\<close>

definition fal_get_status :: "poll_cycle \<Rightarrow> string \<Rightarrow> string \<Rightarrow> pyexc + status_data" where
  "fal_get_status c job model =
     fal_check_status c job
       (if model = [] then ''fal-ai/bytedance/seedream/v4/text-to-image'' else model)"

definition kie_get_status :: "poll_cycle \<Rightarrow> string \<Rightarrow> string \<Rightarrow> pyexc + status_data" where
  "kie_get_status c job model = kie_check_status c job model"

text \<open>\<open>Veo3Provider.get_status(job_id, provider)\<close>\<close>

definition veo3_get_status ::
  "poll_cycle \<Rightarrow> string \<Rightarrow> string \<Rightarrow> poll_event list \<times> (pyexc + status_data)" where
  "veo3_get_status c job prov =
     (if prov = ''kie'' then
        ([CheckStatus ''kie'' job ''veo3''], kie_get_status c job ''veo3'')
      else if prov = ''fal'' then
        ([CheckStatus ''fal'' job ''fal-ai/veo3.1/image-to-video''],
         fal_get_status c job ''fal-ai/veo3.1/image-to-video'')
      else
        ([], Inl \<lparr>exc_class = ValueError, type_name = ''ValueError'',
                  message = ''Unknown provider: '' @ prov\<rparr>))"

text \<open>\<open>Veo3Provider.wait_for_completion(job_id, provider, timeout, poll_interval)\<close>\<close>

fun veo3_wait_for_completion ::
  "string \<Rightarrow> string \<Rightarrow> int \<Rightarrow> int \<Rightarrow> rat \<Rightarrow> poll_cycle list \<Rightarrow> poll_result" where
  "veo3_wait_for_completion job prov timeout poll_interval start_time [] = ([], None)"
| "veo3_wait_for_completion job prov timeout poll_interval start_time (c # cs) =
     (if clock c - start_time > of_int timeout then
        ([], Some (Inl (Exception (''Veo3 job '' @ job @ '' timed out after ''
                                    @ str_int timeout @ ''s''))))
      else
        (case veo3_get_status c job prov of
           (evs, Inl e) \<Rightarrow> (evs, Some (Inl e))
         | (evs, Inr sd) \<Rightarrow>
             (case on_status ''Veo3 job failed: '' sd of
                Some r \<Rightarrow> (evs, Some r)
              | None \<Rightarrow>
                  emit (evs @ [Sleep poll_interval])
                    (veo3_wait_for_completion job prov timeout poll_interval start_time cs))))"

text \<open>
  A turn after which the loop polls again: it starts within the deadline and its probe
  neither ends the job nor, for the Veo3 loop, raises.
\<close>

definition fal_turn_continues :: "string \<Rightarrow> int \<Rightarrow> rat \<Rightarrow> poll_cycle \<Rightarrow> bool" where
  "fal_turn_continues job timeout start_time c =
     (\<not> clock c - start_time > of_int timeout
      \<and> (case snd (try_models (fal_check_status c) job models_to_try) of
           None \<Rightarrow> True
         | Some sd \<Rightarrow> sd_status sd \<noteq> ''COMPLETED'' \<and> sd_status sd \<noteq> ''FAILED''))"

definition veo3_turn_continues :: "string \<Rightarrow> string \<Rightarrow> int \<Rightarrow> rat \<Rightarrow> poll_cycle \<Rightarrow> bool" where
  "veo3_turn_continues job prov timeout start_time c =
     (\<not> clock c - start_time > of_int timeout
      \<and> (case snd (veo3_get_status c job prov) of
           Inl e \<Rightarrow> False
         | Inr sd \<Rightarrow> sd_status sd \<noteq> ''COMPLETED'' \<and> sd_status sd \<noteq> ''FAILED''))"

text \<open>A probe of the turn reports COMPLETED without a usable URL.\<close>

definition completed_without_url :: "status_data \<Rightarrow> bool" where
  "completed_without_url sd =
     (sd_status sd = ''COMPLETED'' \<and> (sd_result_url sd = None \<or> sd_result_url sd = Some []))"

subsection \<open>Concrete polling turns\<close>

definition processing :: status_data where
  "processing = \<lparr>sd_status = ''PROCESSING'', sd_result_url = None, sd_error = None\<rparr>"

definition completed_no_url :: status_data where
  "completed_no_url = \<lparr>sd_status = ''COMPLETED'', sd_result_url = None, sd_error = None\<rparr>"

definition turn_all_probes_fail :: "rat \<Rightarrow> poll_cycle" where
  "turn_all_probes_fail t =
     \<lparr>clock = t,
      fal_check_status = (\<lambda>job model. Inl (Exception ''connection reset'')),
      kie_check_status = (\<lambda>job model. Inl (Exception ''connection reset''))\<rparr>"

definition turn_with_status :: "rat \<Rightarrow> status_data \<Rightarrow> poll_cycle" where
  "turn_with_status t sd =
     \<lparr>clock = t,
      fal_check_status = (\<lambda>job model. Inr sd),
      kie_check_status = (\<lambda>job model. Inr sd)\<rparr>"

section \<open>The pipeline orchestrator (app/services/pipeline_orchestrator.py)\<close>

subsection \<open>Dictionaries and truthiness\<close>

text \<open>\<open>d.get(key, default)\<close>\<close>

definition get_default :: "pydict \<Rightarrow> string \<Rightarrow> pyval \<Rightarrow> pyval" where
  "get_default d k dflt = (case map_of d k of Some v \<Rightarrow> v | None \<Rightarrow> dflt)"

text \<open>\<open>person_fields.get(key, default)\<close> on the form fields, a \<open>Dict[str, str]\<close>.\<close>

definition field_get :: "(string \<times> string) list \<Rightarrow> string \<Rightarrow> string \<Rightarrow> string" where
  "field_get form_fields k dflt = (case map_of form_fields k of Some v \<Rightarrow> v | None \<Rightarrow> dflt)"

text \<open>
  Truthiness of an optional string (\<open>None\<close> and the empty string are false) and of an
  optional dictionary (\<open>None\<close> and the empty dictionary are false).
\<close>

definition truthy_str :: "string option \<Rightarrow> bool" where
  "truthy_str s = (case s of None \<Rightarrow> False | Some t \<Rightarrow> t \<noteq> [])"

definition truthy_dict :: "'a list option \<Rightarrow> bool" where
  "truthy_dict d = (case d of None \<Rightarrow> False | Some kvs \<Rightarrow> kvs \<noteq> [])"

subsection \<open>Collaborators\<close>

text \<open>The dictionary returned by the upload helpers of \<open>app/utils/s3_storage.py\<close>.\<close>

record s3_object =
  s3_url :: string
  s3_key :: string

datatype artifact = PersonImage | CompositeImage | Video

text \<open>
  The arguments of \<open>FalProvider.submit_text_to_image_job\<close> and
  \<open>FalProvider.submit_image_edit_job\<close>. The prompt of the first is \<open>None\<close> only when
  \<open>generate_person_and_composite\<close> is called in ADVANCED mode without a prompt.
\<close>

record t2i_job =
  t2i_prompt :: "string option"
  t2i_negative_prompt :: string
  t2i_width :: int
  t2i_height :: int
  t2i_num_inference_steps :: int
  t2i_guidance_scale :: rat

record edit_job =
  edit_base_image_url :: string
  edit_prompt :: string
  edit_overlay_image_url :: string
  edit_strength :: rat
  edit_mode :: string

text \<open>
  \<open>OpenRouterProvider\<close>, the enrichment collaborator: each call raises or returns.
  \<open>enhance_person_prompt(user_input, product_info)\<close>,
  \<open>enhance_composite_prompt(person_info, product_info, user_instructions)\<close>,
  \<open>enhance_video_prompt(composite_info, user_input, product_type)\<close>.
\<close>

record openrouter_provider =
  analyze_product_image :: "string \<Rightarrow> pyexc + pydict"
  enhance_person_prompt :: "string option \<Rightarrow> pydict \<Rightarrow> pyexc + string"
  enhance_composite_prompt :: "pydict \<Rightarrow> pydict \<Rightarrow> string \<Rightarrow> pyexc + string"
  enhance_video_prompt :: "pydict \<Rightarrow> string \<Rightarrow> pyval \<Rightarrow> pyexc + string"

text \<open>
  A \<open>PipelineOrchestrator\<close> together with the module-level collaborators it calls. Every
  awaited call is taken to finish, with an exception or with a value.

  \<^item> \<open>fal_seedream_*\<close>: \<open>self.fal_seedream\<close>; a submission returns the \<open>job_id\<close> of the
    dictionary, \<open>wait_for_completion(job_id, timeout)\<close> the result URL.
  \<^item> \<open>veo3_provider\<close>: the two clients behind \<open>self.veo3\<close>;
    \<open>veo3_provider_wait_for_completion\<close> is
    \<open>self.veo3.wait_for_completion(job_id, provider, timeout, poll_interval)\<close>.
  \<^item> \<open>openrouter\<close>: \<open>self.openrouter\<close>, \<open>None\<close> when enrichment is not configured.
  \<^item> \<open>orchestrator_webhook_url\<close>: \<open>self.webhook_url\<close>.
  \<^item> \<open>upload_*\<close>: the storage helpers \<open>(url, user_id, generation_id)\<close>.
  \<^item> \<open>settings_PYTHON_API_KEY\<close>: the attribute lookup \<open>settings.PYTHON_API_KEY\<close> made when
    the request headers are built: its value, or the exception the lookup raises. The class
    \<open>Settings\<close> of \<open>app/core/config.py\<close> declares no field of that name, so with the
    settings of this repository the lookup raises \<open>AttributeError\<close>
    (\<open>settings_attribute_error\<close> below) and no POST is made. The properties proved here
    hold whatever the lookup does.
  \<^item> \<open>httpx_post\<close>: the POST \<open>(url, json, bearer key)\<close>: an exception (transport failure,
    timeout) or the status code of the response.
  \<^item> \<open>time_time\<close>: the value returned by the \<open>n\<close>-th call of \<open>time.time()\<close> in a run.
  \<^item> The prompt templates of \<open>n8n_prompt_builder.py\<close> and \<open>seedream_provider.py\<close> are
    parameters as well; their texts play no part in the control flow.
    \<open>build_person_prompt\<close>, \<open>build_composite_prompt\<close> and \<open>build_video_prompt\<close> only format
    their arguments. \<open>build_person_prompt_from_fields\<close> stands for the call with keyword
    arguments taken from a dictionary, which raises \<open>TypeError\<close> when the dictionary is
    \<open>None\<close> or its keys are not the six parameters. \<open>casual_dialogue_ill_typed\<close> is what
    \<open>generate_casual_dialogue\<close> does on arguments that are not strings.
\<close>

record pipeline_orchestrator =
  fal_seedream_submit_text_to_image_job :: "t2i_job \<Rightarrow> pyexc + string"
  fal_seedream_submit_image_edit_job :: "edit_job \<Rightarrow> pyexc + string"
  fal_seedream_wait_for_completion :: "string \<Rightarrow> int \<Rightarrow> pyexc + string"
  veo3_provider :: veo3_clients
  veo3_provider_wait_for_completion :: "string \<Rightarrow> string \<Rightarrow> int \<Rightarrow> int \<Rightarrow> pyexc + string"
  openrouter :: "openrouter_provider option"
  orchestrator_webhook_url :: "string option"
  upload_person_image :: "string \<Rightarrow> string \<Rightarrow> string \<Rightarrow> pyexc + s3_object"
  upload_composite_image :: "string \<Rightarrow> string \<Rightarrow> string \<Rightarrow> pyexc + s3_object"
  upload_video :: "string \<Rightarrow> string \<Rightarrow> string \<Rightarrow> pyexc + s3_object"
  settings_PYTHON_API_KEY :: "pyexc + string"
  httpx_post :: "string \<Rightarrow> pydict \<Rightarrow> string \<Rightarrow> pyexc + int"
  time_time :: "nat \<Rightarrow> rat"
  build_person_prompt :: "string \<Rightarrow> string \<Rightarrow> string \<Rightarrow> string \<Rightarrow> string \<Rightarrow> string \<Rightarrow> string"
  build_person_prompt_from_fields :: "(string \<times> string) list option \<Rightarrow> pyexc + string"
  build_composite_prompt :: "string \<Rightarrow> pyval \<Rightarrow> pyval \<Rightarrow> string"
  build_video_prompt :: "string \<Rightarrow> string \<Rightarrow> string \<Rightarrow> string \<Rightarrow> pyval \<Rightarrow> string"
  casual_dialogue_ill_typed :: "pyval \<Rightarrow> pyval \<Rightarrow> pyexc + string"

text \<open>\<open>self.webhook_url = webhook_url or settings.WASP_WEBHOOK_URL\<close> of \<open>__init__\<close>.\<close>

definition init_webhook_url :: "string option \<Rightarrow> string \<Rightarrow> string option" where
  "init_webhook_url url WASP_WEBHOOK_URL = (if truthy_str url then url else Some WASP_WEBHOOK_URL)"

subsection \<open>Runs\<close>

text \<open>
  What became of a payload handed to \<open>_send_webhook\<close>: nothing was done because no webhook
  URL is configured; an exception was raised inside the \<open>try\<close> (while the headers were
  built or by the POST) and was logged; or the POST was answered with a status code.
\<close>

datatype delivery = NotConfigured | Discarded pyexc | Responded int

text \<open>
  What the orchestrator does, in order. Every call of a collaborator is recorded with its
  arguments and with how it ended (\<open>Inl\<close> the exception raised, \<open>Inr\<close> the value returned).
  \<open>SubmitVeo3Job\<close> carries the image URL, the prompt and the provider calls the
  coordinator issued; \<open>S3Upload\<close> the kind of artifact and \<open>(url, user_id, generation_id)\<close>;
  \<open>SendWebhook\<close> is a call \<open>_send_webhook(data)\<close>, with the payload and its delivery.
\<close>

datatype event =
    AnalyzeProductImage string "pyexc + pydict"
  | EnhancePersonPrompt "string option" pydict "pyexc + string"
  | EnhanceCompositePrompt pydict pydict string "pyexc + string"
  | EnhanceVideoPrompt pydict string pyval "pyexc + string"
  | SubmitTextToImageJob t2i_job "pyexc + string"
  | SubmitImageEditJob edit_job "pyexc + string"
  | FalWaitForCompletion string int "pyexc + string"
  | SubmitVeo3Job string string "provider_call list" "pyexc + veo3_result"
  | Veo3WaitForCompletion string string int int "pyexc + string"
  | S3Upload artifact string string string "pyexc + s3_object"
  | SendWebhook pydict delivery

text \<open>A piece of code run to its end: the events, and the exception raised or the value.\<close>

type_synonym 'a run = "event list \<times> (pyexc + 'a)"

definition returns :: "'a \<Rightarrow> 'a run" where
  "returns x = ([], Inr x)"

definition raises :: "pyexc \<Rightarrow> 'a run" where
  "raises ex = ([], Inl ex)"

text \<open>Sequencing: the rest runs on the value of the first part unless that part raised.\<close>

definition and_then :: "'a run \<Rightarrow> ('a \<Rightarrow> 'b run) \<Rightarrow> 'b run" where
  "and_then m f =
     (case m of
        (evs, Inl ex) \<Rightarrow> (evs, Inl ex)
      | (evs, Inr x) \<Rightarrow> (case f x of (evs', res) \<Rightarrow> (evs @ evs', res)))"

text \<open>An awaited call of a collaborator, recorded with its outcome.\<close>

definition await :: "(pyexc + 'a \<Rightarrow> event) \<Rightarrow> pyexc + 'a \<Rightarrow> 'a run" where
  "await ev res = ([ev res], res)"

text \<open>
  \<open>try: x = <call> except Exception: <log>\<close> around a best-effort call: on an exception
  \<open>x\<close> keeps the value it had.
\<close>

definition caught :: "'a run \<Rightarrow> 'a \<Rightarrow> 'a run" where
  "caught m kept = (fst m, Inr (case snd m of Inl ex \<Rightarrow> kept | Inr x \<Rightarrow> x))"

text \<open>
  \<open>try: <body> except Exception as e: <handler>; raise\<close>. The bare \<open>raise\<close> re-raises \<open>e\<close>;
  an exception escaping the handler itself would replace it.
\<close>

definition on_exception :: "'a run \<Rightarrow> (pyexc \<Rightarrow> unit run) \<Rightarrow> 'a run" where
  "on_exception body handler =
     (case body of
        (evs, Inr x) \<Rightarrow> (evs, Inr x)
      | (evs, Inl ex) \<Rightarrow>
          (case handler ex of
             (evs', Inl ex') \<Rightarrow> (evs @ evs', Inl ex')
           | (evs', Inr u) \<Rightarrow> (evs @ evs', Inl ex)))"

subsection \<open>Webhooks\<close>

text \<open>
  The delivery of \<open>_send_webhook(data)\<close>. Without a webhook URL the function returns at
  once. Everything else is inside \<open>try ... except Exception\<close>, which only logs: building
  the headers (the lookup of \<open>settings.PYTHON_API_KEY\<close>), the POST, and the test of the
  status code.
\<close>

definition deliver :: "pipeline_orchestrator \<Rightarrow> pydict \<Rightarrow> delivery" where
  "deliver self data =
     (case orchestrator_webhook_url self of
        None \<Rightarrow> NotConfigured
      | Some url \<Rightarrow>
          if url = [] then NotConfigured
          else
            (case settings_PYTHON_API_KEY self of
               Inl ex \<Rightarrow> Discarded ex
             | Inr api_key \<Rightarrow>
                 (case httpx_post self url data api_key of
                    Inl ex \<Rightarrow> Discarded ex
                  | Inr status_code \<Rightarrow> Responded status_code)))"

text \<open>\<open>_send_webhook(data)\<close>: it never raises and returns nothing.\<close>

definition send_webhook :: "pipeline_orchestrator \<Rightarrow> pydict \<Rightarrow> unit run" where
  "send_webhook self data = ([SendWebhook data (deliver self data)], Inr ())"

text \<open>\<open>d[key]\<close>: a missing key raises \<open>KeyError\<close>.\<close>

definition subscript :: "pydict \<Rightarrow> string \<Rightarrow> pyval run" where
  "subscript d k =
     (case map_of d k of
        Some v \<Rightarrow> returns v
      | None \<Rightarrow>
          raises \<lparr>exc_class = OtherException, type_name = ''KeyError'',
                  message = [CHR 0x27] @ k @ [CHR 0x27]\<rparr>)"

text \<open>
  \<open>_send_failure_webhook(generation_id, exception, stage, stage_error_field)\<close>. The stage
  number and the stage error field enter the payload only when they are given (and not \<open>0\<close>,
  not empty).
\<close>

definition send_failure_webhook ::
  "pipeline_orchestrator \<Rightarrow> string \<Rightarrow> pyexc \<Rightarrow> int option \<Rightarrow> string option \<Rightarrow> unit run" where
  "send_failure_webhook self generation_id exception stage stage_error_field =
     (let error_info =
            classify_error exception
              (case stage of
                 None \<Rightarrow> None
               | Some n \<Rightarrow> if n = 0 then None else Some (''stage'' @ str_int n))
      in and_then (subscript error_info ''error_type'') (\<lambda>error_type.
         and_then (subscript error_info ''error_message'') (\<lambda>error_message.
         and_then (subscript error_info ''is_refundable'') (\<lambda>is_refundable.
         and_then (subscript error_info ''can_retry'') (\<lambda>can_retry.
         and_then
           (returns
              [(''generation_id'', VStr generation_id),
               (''status'', VStr ''FAILED''),
               (''error_type'', error_type),
               (''error_message'', error_message),
               (''is_refundable'', is_refundable),
               (''can_retry'', can_retry)]) (\<lambda>payload.
         and_then
           (returns
              (case stage of
                 None \<Rightarrow> payload
               | Some n \<Rightarrow>
                   if n = 0 then payload
                   else AList.update ''progress'' (VInt 0)
                          (AList.update ''current_stage'' (VInt n) payload))) (\<lambda>payload.
         and_then
           (case stage_error_field of
              None \<Rightarrow> returns payload
            | Some field \<Rightarrow>
                if field = [] then returns payload
                else
                  and_then (subscript error_info ''technical_details'') (\<lambda>technical_details.
                    returns (AList.update field technical_details payload))) (\<lambda>payload.
         send_webhook self payload))))))))"
subsection \<open>Prompt preparation\<close>

definition value_error :: "string \<Rightarrow> pyexc" where
  "value_error msg = \<lparr>exc_class = ValueError, type_name = ''ValueError'', message = msg\<rparr>"

text \<open>A call that touches no collaborator: it only raises or returns.\<close>

definition pure_call :: "pyexc + 'a \<Rightarrow> 'a run" where
  "pure_call res = ([], res)"

text \<open>
  \<open>N8nPromptBuilder.generate_casual_dialogue(product_type, brand_name)\<close> on strings: the
  first template of the product type, the generic one for an unknown type.
\<close>

definition casual_dialogue :: "string \<Rightarrow> string \<Rightarrow> string" where
  "casual_dialogue product_type brand_name =
     (let brand = (if brand_name = [] then [] else brand_name @ '' '');
          kind = lower product_type
      in if kind = ''drink'' \<or> kind = ''beverage'' then
           ''okay so... '' @ brand @ ''this is actually really good... super refreshing''
         else if kind = ''bag'' then
           ''so I got this bag and... it fits everything I need... love the design''
         else if kind = ''accessory'' then
           ''so I got this and... honestly love it... goes with everything''
         else if kind = ''tech'' then
           ''so I tried this out and... works really well... super easy to use''
         else if kind = ''skincare'' then
           ''so I'' @ [CHR 0x27]
             @ ''ve been using this and... my skin feels so much better... highly recommend''
         else if kind = ''beauty'' then
           ''so I tried this and... honestly really impressed... the results are great''
         else if kind = ''food'' then
           ''so I tried this and... honestly so good... you need to try it''
         else ''so I got this and... honestly really love it... would definitely recommend'')"

definition generate_casual_dialogue ::
  "pipeline_orchestrator \<Rightarrow> pyval \<Rightarrow> pyval \<Rightarrow> pyexc + string" where
  "generate_casual_dialogue self product_type brand_name =
     (case product_type of
        VStr t \<Rightarrow>
          (case brand_name of
             VStr b \<Rightarrow> Inr (casual_dialogue t b)
           | _ \<Rightarrow> casual_dialogue_ill_typed self product_type brand_name)
      | _ \<Rightarrow> casual_dialogue_ill_typed self product_type brand_name)"

text \<open>
  The characters \<open>str.strip()\<close> removes, among the first 256 code points, and
  \<open>str.strip()\<close>, \<open>str.split(sep)\<close> for a one-character separator.
\<close>

definition is_space :: "char \<Rightarrow> bool" where
  "is_space c =
     (let n = (of_char c :: nat)
      in (9 \<le> n \<and> n \<le> 13) \<or> (28 \<le> n \<and> n \<le> 32) \<or> n = 133 \<or> n = 160)"

definition strip :: "string \<Rightarrow> string" where
  "strip s = rev (dropWhile is_space (rev (dropWhile is_space s)))"

fun split_on :: "char \<Rightarrow> string \<Rightarrow> string list" where
  "split_on sep [] = [[]]"
| "split_on sep (c # cs) =
     (if c = sep then [] # split_on sep cs
      else (case split_on sep cs of
              w # ws \<Rightarrow> (c # w) # ws
            | [] \<Rightarrow> [[c]]))"

text \<open>
  The parsing of \<open>video_prompt\<close> in \<open>generate_video_only\<close>: the triple
  \<open>(dialogue, action, emotion)\<close>. A line \<open>key: value\<close> sets the variable named by the key;
  a prompt without a line break or without a colon is the dialogue as a whole.
\<close>

definition parse_line :: "string \<times> string \<times> string \<Rightarrow> string \<Rightarrow> string \<times> string \<times> string" where
  "parse_line acc line =
     (case acc of
        (dialogue, action, emotion) \<Rightarrow>
          if CHR '':'' \<in> set line then
            (let line_key = lower (strip (takeWhile (\<lambda>c. c \<noteq> CHR '':'') line));
                 line_value = strip (tl (dropWhile (\<lambda>c. c \<noteq> CHR '':'') line))
             in if line_key = ''dialogue'' then (line_value, action, emotion)
                else if line_key = ''action'' then (dialogue, line_value, emotion)
                else if line_key = ''emotion'' then (dialogue, action, line_value)
                else acc)
          else acc)"

definition parse_video_prompt :: "string \<Rightarrow> string \<times> string \<times> string" where
  "parse_video_prompt video_prompt =
     (if CHR 0x0A \<in> set video_prompt \<and> CHR '':'' \<in> set video_prompt then
        foldl parse_line
          ([], ''character sits holding the product casually while speaking'', ''casual and happy'')
          (split_on (CHR 0x0A) video_prompt)
      else
        (video_prompt, ''character sits holding the product casually while speaking'',
         ''casual and happy''))"

text \<open>
  The product analysis of the single-stage entry points:
  \<open>try: product_info = await self.openrouter.analyze_product_image(url) except Exception\<close>,
  \<open>product_info\<close> staying \<open>None\<close> when the call raises.
\<close>

definition analyze_product :: "openrouter_provider \<Rightarrow> string \<Rightarrow> pydict option run" where
  "analyze_product orp product_image_url =
     caught
       (and_then
          (await (AnalyzeProductImage product_image_url)
             (analyze_product_image orp product_image_url))
          (\<lambda>product_info. returns (Some product_info)))
       None"

text \<open>\<open>product_info.get(key, default) if product_info else default\<close>\<close>

definition info_get :: "pydict option \<Rightarrow> string \<Rightarrow> pyval \<Rightarrow> pyval" where
  "info_get product_info k dflt =
     (case product_info of
        None \<Rightarrow> dflt
      | Some info \<Rightarrow> if info = [] then dflt else get_default info k dflt)"

subsection \<open>The single-stage entry points\<close>

definition text_to_image :: "string option \<Rightarrow> t2i_job" where
  "text_to_image p =
     \<lparr>t2i_prompt = p, t2i_negative_prompt = [], t2i_width = 1080, t2i_height = 1440,
      t2i_num_inference_steps = 50, t2i_guidance_scale = 15 / 2\<rparr>"

text \<open>The \<open>try\<close> block of \<open>generate_person_only\<close>.\<close>

definition generate_person_only_try ::
  "pipeline_orchestrator \<Rightarrow> string \<Rightarrow> string \<Rightarrow> string \<Rightarrow> string option
     \<Rightarrow> (string \<times> string) list option \<Rightarrow> pydict run" where
  "generate_person_only_try self generation_id user_id stage1_mode person_prompt person_fields =
     and_then
       (if stage1_mode = ''EASY'' then
          (case person_fields of
             None \<Rightarrow> raises (value_error ''person_fields required for EASY mode'')
           | Some form \<Rightarrow>
               if form = [] then raises (value_error ''person_fields required for EASY mode'')
               else
                 returns
                   (build_person_prompt self
                      (field_get form ''age'' ''20s'')
                      (field_get form ''gender'' ''female'')
                      (field_get form ''ethnicity'' ''caucasian'')
                      (field_get form ''expression'' ''smiling'')
                      (field_get form ''clothing'' ''casual'')
                      (field_get form ''background'' ''home'')))
        else
          (case person_prompt of
             None \<Rightarrow> raises (value_error ''person_prompt required for ADVANCED mode'')
           | Some p \<Rightarrow>
               if p = [] then raises (value_error ''person_prompt required for ADVANCED mode'')
               else returns p))
       (\<lambda>final_person_prompt.
     and_then
       (await (SubmitTextToImageJob (text_to_image (Some final_person_prompt)))
          (fal_seedream_submit_text_to_image_job self (text_to_image (Some final_person_prompt))))
       (\<lambda>stage1_job.
     and_then
       (await (FalWaitForCompletion stage1_job 120)
          (fal_seedream_wait_for_completion self stage1_job 120))
       (\<lambda>person_image_url.
     and_then
       (await (S3Upload PersonImage person_image_url user_id generation_id)
          (upload_person_image self person_image_url user_id generation_id))
       (\<lambda>person_s3.
     returns
       [(''success'', VBool True),
        (''generation_id'', VStr generation_id),
        (''person_url'', VStr (s3_url person_s3)),
        (''person_s3_key'', VStr (s3_key person_s3))]))))"

definition generate_person_only ::
  "pipeline_orchestrator \<Rightarrow> string \<Rightarrow> string \<Rightarrow> string \<Rightarrow> string option
     \<Rightarrow> (string \<times> string) list option \<Rightarrow> pydict run" where
  "generate_person_only self generation_id user_id stage1_mode person_prompt person_fields =
     on_exception
       (generate_person_only_try self generation_id user_id stage1_mode person_prompt
          person_fields)
       (\<lambda>ex. send_failure_webhook self generation_id ex (Some 1) (Some ''stage1_error''))"

text \<open>The \<open>try\<close> block of \<open>generate_composite_only\<close>.\<close>

definition generate_composite_only_try ::
  "pipeline_orchestrator \<Rightarrow> string \<Rightarrow> string \<Rightarrow> string \<Rightarrow> string \<Rightarrow> string option
     \<Rightarrow> pydict run" where
  "generate_composite_only_try self generation_id user_id person_image_url product_image_url
       composite_prompt =
     and_then
       (case openrouter self of
          None \<Rightarrow> returns None
        | Some orp \<Rightarrow> analyze_product orp product_image_url)
       (\<lambda>product_info.
     and_then
       (returns
          (let built =
                 build_composite_prompt self ''person from the original image''
                   (info_get product_info ''visual_description'' (VStr ''product''))
                   (info_get product_info ''brand_name'' (VStr ''Unknown''))
           in case composite_prompt of
                None \<Rightarrow> built
              | Some p \<Rightarrow> if p = [] then built else p))
       (\<lambda>composite_text.
     and_then
       (await
          (SubmitImageEditJob
             \<lparr>edit_base_image_url = person_image_url, edit_prompt = composite_text,
              edit_overlay_image_url = product_image_url, edit_strength = 45 / 100,
              edit_mode = ''inpaint_and_blend''\<rparr>)
          (fal_seedream_submit_image_edit_job self
             \<lparr>edit_base_image_url = person_image_url, edit_prompt = composite_text,
              edit_overlay_image_url = product_image_url, edit_strength = 45 / 100,
              edit_mode = ''inpaint_and_blend''\<rparr>))
       (\<lambda>stage2_job.
     and_then
       (await (FalWaitForCompletion stage2_job 90)
          (fal_seedream_wait_for_completion self stage2_job 90))
       (\<lambda>composite_image_url.
     and_then
       (await (S3Upload CompositeImage composite_image_url user_id generation_id)
          (upload_composite_image self composite_image_url user_id generation_id))
       (\<lambda>composite_s3.
     returns
       [(''success'', VBool True),
        (''generation_id'', VStr generation_id),
        (''composite_url'', VStr (s3_url composite_s3)),
        (''composite_s3_key'', VStr (s3_key composite_s3))])))))"

definition generate_composite_only ::
  "pipeline_orchestrator \<Rightarrow> string \<Rightarrow> string \<Rightarrow> string \<Rightarrow> string \<Rightarrow> string option
     \<Rightarrow> pydict run" where
  "generate_composite_only self generation_id user_id person_image_url product_image_url
       composite_prompt =
     on_exception
       (generate_composite_only_try self generation_id user_id person_image_url
          product_image_url composite_prompt)
       (\<lambda>ex. send_failure_webhook self generation_id ex (Some 2) (Some ''stage2_error''))"

text \<open>
  The submission of stage 3 through the coordinator, as both \<open>generate_video_only\<close> and
  \<open>generate_ugc_video\<close> call it: \<open>preferred_provider="kie"\<close>, \<open>fallback_timeout=60\<close>, no
  webhook URL.
\<close>

definition submit_video ::
  "pipeline_orchestrator \<Rightarrow> string \<Rightarrow> string \<Rightarrow> string \<Rightarrow> int \<Rightarrow> string \<Rightarrow> veo3_result run" where
  "submit_video self composite_url final_video_prompt veo3_mode duration aspect_ratio =
     (case submit_veo3_job (veo3_provider self) composite_url final_video_prompt
             (veo3_mode = ''FAST'') duration aspect_ratio None ''kie'' 60 of
        (calls, res) \<Rightarrow> await (SubmitVeo3Job composite_url final_video_prompt calls) res)"

text \<open>The \<open>try\<close> block of \<open>generate_video_only\<close>.\<close>

definition generate_video_only_try ::
  "pipeline_orchestrator \<Rightarrow> string \<Rightarrow> string \<Rightarrow> string \<Rightarrow> string \<Rightarrow> string \<Rightarrow> int \<Rightarrow> string
     \<Rightarrow> string option \<Rightarrow> pydict run" where
  "generate_video_only_try self generation_id user_id composite_image_url video_prompt veo3_mode
       duration aspect_ratio product_image_url =
     and_then
       (case openrouter self of
          None \<Rightarrow> returns None
        | Some orp \<Rightarrow>
            (case product_image_url of
               None \<Rightarrow> returns None
             | Some url \<Rightarrow> if url = [] then returns None else analyze_product orp url))
       (\<lambda>product_info.
     (case parse_video_prompt video_prompt of
        (parsed_dialogue, action, emotion) \<Rightarrow>
     and_then
       (if parsed_dialogue = [] then
          pure_call
            (generate_casual_dialogue self
               (info_get product_info ''type'' (VStr ''product''))
               (info_get product_info ''brand_name'' (VStr [])))
        else returns parsed_dialogue)
       (\<lambda>dialogue.
     and_then
       (returns
          (build_video_prompt self dialogue action emotion ''person from the composite image''
             (info_get product_info ''type'' (VStr ''product''))))
       (\<lambda>final_video_prompt.
     and_then
       (submit_video self composite_image_url final_video_prompt veo3_mode duration aspect_ratio)
       (\<lambda>stage3_result.
     and_then
       (await
          (Veo3WaitForCompletion (job_id stage3_result) (provider stage3_result) 600 30)
          (veo3_provider_wait_for_completion self (job_id stage3_result)
             (provider stage3_result) 600 30))
       (\<lambda>video_url.
     and_then
       (await (S3Upload Video video_url user_id generation_id)
          (upload_video self video_url user_id generation_id))
       (\<lambda>video_s3.
     returns
       [(''success'', VBool True),
        (''generation_id'', VStr generation_id),
        (''video_url'', VStr (s3_url video_s3)),
        (''video_s3_key'', VStr (s3_key video_s3)),
        (''provider_used'', VStr (provider stage3_result)),
        (''fallback_triggered'', VBool (fallback_triggered stage3_result))])))))))"

definition generate_video_only ::
  "pipeline_orchestrator \<Rightarrow> string \<Rightarrow> string \<Rightarrow> string \<Rightarrow> string \<Rightarrow> string \<Rightarrow> int \<Rightarrow> string
     \<Rightarrow> string option \<Rightarrow> pydict run" where
  "generate_video_only self generation_id user_id composite_image_url video_prompt veo3_mode
       duration aspect_ratio product_image_url =
     on_exception
       (generate_video_only_try self generation_id user_id composite_image_url video_prompt
          veo3_mode duration aspect_ratio product_image_url)
       (\<lambda>ex. send_failure_webhook self generation_id ex (Some 3) (Some ''stage3_error''))"
subsection \<open>The full run (\<open>generate_ugc_video\<close>)\<close>

text \<open>
  The call \<open>build_person_prompt_from_fields(gender=..., age=..., ...)\<close> of the full run, with
  the defaults of the six \<open>person_fields.get\<close>.
\<close>

definition person_prompt_from_form ::
  "pipeline_orchestrator \<Rightarrow> (string \<times> string) list \<Rightarrow> pyexc + string" where
  "person_prompt_from_form self form =
     build_person_prompt_from_fields self
       (Some [(''gender'', field_get form ''gender'' ''female''),
              (''age'', field_get form ''age'' ''26-35''),
              (''ethnicity'', field_get form ''ethnicity'' ''Caucasian''),
              (''clothing'', field_get form ''clothing'' ''casual''),
              (''expression'', field_get form ''expression'' ''smiling''),
              (''background'', field_get form ''background'' ''white'')])"

definition generic_product_info :: pydict where
  "generic_product_info =
     [(''brand_name'', VStr ''Unknown''),
      (''color_scheme'', VList []),
      (''visual_description'', VStr ''Generic product'')]"

text \<open>
  The enrichment of stage 1 in the full run, one \<open>try\<close> around the analysis and the
  enhancement: the result is \<open>(product_info, final_person_prompt)\<close>. When the analysis
  raises, \<open>product_info\<close> stays \<open>None\<close> and the enhancement is skipped; when the enhancement
  raises, \<open>product_info\<close> keeps what was assigned and the prompt is the one built before.
\<close>

definition enhance_person ::
  "pipeline_orchestrator \<Rightarrow> string \<Rightarrow> string \<Rightarrow> (pydict option \<times> string) run" where
  "enhance_person self product_image_url final_person_prompt =
     (case openrouter self of
        None \<Rightarrow> returns (None, final_person_prompt)
      | Some orp \<Rightarrow>
          caught
            (and_then
               (if product_image_url \<noteq> [] then
                  await (AnalyzeProductImage product_image_url)
                    (analyze_product_image orp product_image_url)
                else returns generic_product_info)
               (\<lambda>product_info.
                  caught
                    (and_then
                       (await (EnhancePersonPrompt (Some final_person_prompt) product_info)
                          (enhance_person_prompt orp (Some final_person_prompt) product_info))
                       (\<lambda>enhanced. returns (Some product_info, enhanced)))
                    (Some product_info, final_person_prompt)))
            (None, final_person_prompt))"

definition default_composite_prompt :: string where
  "default_composite_prompt =
     ''The person is casually presenting the product to the camera in a natural, relaxed way. ''
     @ ''The product is held at a comfortable distance from the camera - not too close or too far. ''
     @ ''Natural hand grip with fingers relaxed, as if showing it to a friend. ''
     @ ''The product should appear normal-sized, not oversized or dominant in the frame. ''
     @ ''Keep the person'' @ [CHR 0x27]
     @ ''s face, expression, and overall pose similar to the original. ''
     @ ''Casual, authentic UGC presentation style - not staged or overly posed. ''
     @ ''The person looks natural and comfortable holding the product.''"

text \<open>
  \<open>if self.openrouter and product_info: try: <prompt> = await <enhancement> except ...\<close>:
  the enhancement is attempted only with a collaborator and a non-empty \<open>product_info\<close>;
  when it raises, the prompt is kept.
\<close>

definition enhance_with ::
  "pipeline_orchestrator \<Rightarrow> pydict option \<Rightarrow> (openrouter_provider \<Rightarrow> pydict \<Rightarrow> string run)
     \<Rightarrow> string \<Rightarrow> string run" where
  "enhance_with self product_info enhancement kept =
     (case openrouter self of
        None \<Rightarrow> returns kept
      | Some orp \<Rightarrow>
          (case product_info of
             None \<Rightarrow> returns kept
           | Some info \<Rightarrow>
               if info = [] then returns kept else caught (enhancement orp info) kept))"

text \<open>Stage 1 of the full run: the value is \<open>(product_info, person_s3)\<close>.\<close>

definition generate_ugc_video_stage1 ::
  "pipeline_orchestrator \<Rightarrow> string \<Rightarrow> string \<Rightarrow> string \<Rightarrow> string \<Rightarrow> string option
     \<Rightarrow> (string \<times> string) list option \<Rightarrow> (pydict option \<times> s3_object) run" where
  "generate_ugc_video_stage1 self generation_id user_id stage1_mode product_image_url
       person_prompt person_fields =
     and_then
       (send_webhook self
          [(''generation_id'', VStr generation_id),
           (''stage'', VInt 1),
           (''status'', VStr ''processing''),
           (''message'', VStr ''Generating AI person...'')])
       (\<lambda>_.
     and_then
       (if stage1_mode = ''EASY'' then
          (case person_fields of
             None \<Rightarrow> raises (value_error ''person_fields required for EASY mode'')
           | Some form \<Rightarrow>
               if form = [] then raises (value_error ''person_fields required for EASY mode'')
               else pure_call (person_prompt_from_form self form))
        else
          (case person_prompt of
             None \<Rightarrow> raises (value_error ''person_prompt required for ADVANCED mode'')
           | Some p \<Rightarrow>
               if p = [] then raises (value_error ''person_prompt required for ADVANCED mode'')
               else returns p))
       (\<lambda>base_person_prompt.
     and_then (enhance_person self product_image_url base_person_prompt)
       (\<lambda>(product_info, final_person_prompt).
     and_then
       (await (SubmitTextToImageJob (text_to_image (Some final_person_prompt)))
          (fal_seedream_submit_text_to_image_job self (text_to_image (Some final_person_prompt))))
       (\<lambda>stage1_job.
     and_then
       (await (FalWaitForCompletion stage1_job 120)
          (fal_seedream_wait_for_completion self stage1_job 120))
       (\<lambda>person_image_url.
     and_then
       (await (S3Upload PersonImage person_image_url user_id generation_id)
          (upload_person_image self person_image_url user_id generation_id))
       (\<lambda>person_s3.
     and_then
       (send_webhook self
          [(''generation_id'', VStr generation_id),
           (''stage'', VInt 1),
           (''status'', VStr ''completed''),
           (''person_url'', VStr (s3_url person_s3))])
       (\<lambda>_.
     returns (product_info, person_s3))))))))"

text \<open>Stage 2 of the full run: the value is \<open>composite_s3\<close>.\<close>

definition generate_ugc_video_stage2 ::
  "pipeline_orchestrator \<Rightarrow> string \<Rightarrow> string \<Rightarrow> string \<Rightarrow> string option \<Rightarrow> pydict option
     \<Rightarrow> s3_object \<Rightarrow> s3_object run" where
  "generate_ugc_video_stage2 self generation_id user_id product_image_url composite_prompt
       product_info person_s3 =
     and_then
       (send_webhook self
          [(''generation_id'', VStr generation_id),
           (''stage'', VInt 2),
           (''status'', VStr ''processing''),
           (''message'', VStr ''Compositing product with person...'')])
       (\<lambda>_.
     and_then
       (returns
          (case composite_prompt of
             None \<Rightarrow> default_composite_prompt
           | Some p \<Rightarrow> if p = [] then default_composite_prompt else p))
       (\<lambda>composite_text.
     and_then
       (enhance_with self product_info
          (\<lambda>orp info.
             await
               (EnhanceCompositePrompt [(''url'', VStr (s3_url person_s3))] info composite_text)
               (enhance_composite_prompt orp [(''url'', VStr (s3_url person_s3))] info
                  composite_text))
          composite_text)
       (\<lambda>composite_text.
     and_then
       (await
          (SubmitImageEditJob
             \<lparr>edit_base_image_url = s3_url person_s3, edit_prompt = composite_text,
              edit_overlay_image_url = product_image_url, edit_strength = 45 / 100,
              edit_mode = ''inpaint_and_blend''\<rparr>)
          (fal_seedream_submit_image_edit_job self
             \<lparr>edit_base_image_url = s3_url person_s3, edit_prompt = composite_text,
              edit_overlay_image_url = product_image_url, edit_strength = 45 / 100,
              edit_mode = ''inpaint_and_blend''\<rparr>))
       (\<lambda>stage2_job.
     and_then
       (await (FalWaitForCompletion stage2_job 90)
          (fal_seedream_wait_for_completion self stage2_job 90))
       (\<lambda>composite_image_url.
     and_then
       (await (S3Upload CompositeImage composite_image_url user_id generation_id)
          (upload_composite_image self composite_image_url user_id generation_id))
       (\<lambda>composite_s3.
     and_then
       (send_webhook self
          [(''generation_id'', VStr generation_id),
           (''stage'', VInt 2),
           (''status'', VStr ''completed''),
           (''composite_url'', VStr (s3_url composite_s3))])
       (\<lambda>_.
     returns composite_s3)))))))"

text \<open>
  Stage 3 of the full run: the value is the dictionary the run returns. \<open>start_time\<close> is
  the clock value read before the \<open>try\<close>.
\<close>

definition generate_ugc_video_stage3 ::
  "pipeline_orchestrator \<Rightarrow> string \<Rightarrow> string \<Rightarrow> string \<Rightarrow> string \<Rightarrow> int \<Rightarrow> string
     \<Rightarrow> pydict option \<Rightarrow> s3_object \<Rightarrow> s3_object \<Rightarrow> rat \<Rightarrow> pydict run" where
  "generate_ugc_video_stage3 self generation_id user_id video_prompt veo3_mode duration
       aspect_ratio product_info person_s3 composite_s3 start_time =
     and_then
       (send_webhook self
          [(''generation_id'', VStr generation_id),
           (''stage'', VInt 3),
           (''status'', VStr ''processing''),
           (''message'',
            VStr (''Generating video ('' @ (if veo3_mode = ''FAST'' then ''fast'' else ''standard'')
                  @ '' mode)...''))])
       (\<lambda>_.
     and_then
       (enhance_with self product_info
          (\<lambda>orp info.
             await
               (EnhanceVideoPrompt [(''url'', VStr (s3_url composite_s3))] video_prompt
                  (get_default info ''brand_name'' (VStr ''product'')))
               (enhance_video_prompt orp [(''url'', VStr (s3_url composite_s3))] video_prompt
                  (get_default info ''brand_name'' (VStr ''product''))))
          video_prompt)
       (\<lambda>final_video_prompt.
     and_then
       (submit_video self (s3_url composite_s3) final_video_prompt veo3_mode duration aspect_ratio)
       (\<lambda>stage3_result.
     and_then
       (await
          (Veo3WaitForCompletion (job_id stage3_result) (provider stage3_result) 600 30)
          (veo3_provider_wait_for_completion self (job_id stage3_result)
             (provider stage3_result) 600 30))
       (\<lambda>video_url.
     and_then
       (await (S3Upload Video video_url user_id generation_id)
          (upload_video self video_url user_id generation_id))
       (\<lambda>video_s3.
     and_then (returns (time_time self 1 - start_time))
       (\<lambda>total_time.
     and_then
       (send_webhook self
          [(''generation_id'', VStr generation_id),
           (''stage'', VInt 3),
           (''status'', VStr ''completed''),
           (''video_url'', VStr (s3_url video_s3)),
           (''provider_used'', VStr (provider stage3_result)),
           (''fallback_triggered'', VBool (fallback_triggered stage3_result)),
           (''total_time'', VRat total_time)])
       (\<lambda>_.
     returns
       [(''success'', VBool True),
        (''generation_id'', VStr generation_id),
        (''person_url'', VStr (s3_url person_s3)),
        (''person_s3_key'', VStr (s3_key person_s3)),
        (''composite_url'', VStr (s3_url composite_s3)),
        (''composite_s3_key'', VStr (s3_key composite_s3)),
        (''video_url'', VStr (s3_url video_s3)),
        (''video_s3_key'', VStr (s3_key video_s3)),
        (''provider_used'', VStr (provider stage3_result)),
        (''fallback_triggered'', VBool (fallback_triggered stage3_result)),
        (''total_time'', VRat total_time)])))))))"

text \<open>The \<open>try\<close> block of \<open>generate_ugc_video\<close>: the three stages in sequence.\<close>

definition generate_ugc_video_try ::
  "pipeline_orchestrator \<Rightarrow> string \<Rightarrow> string \<Rightarrow> string \<Rightarrow> string \<Rightarrow> string \<Rightarrow> string option
     \<Rightarrow> (string \<times> string) list option \<Rightarrow> string option \<Rightarrow> string \<Rightarrow> int \<Rightarrow> string
     \<Rightarrow> pydict run" where
  "generate_ugc_video_try self generation_id user_id stage1_mode product_image_url video_prompt
       person_prompt person_fields composite_prompt veo3_mode duration aspect_ratio =
     and_then
       (generate_ugc_video_stage1 self generation_id user_id stage1_mode product_image_url
          person_prompt person_fields)
       (\<lambda>(product_info, person_s3).
     and_then
       (generate_ugc_video_stage2 self generation_id user_id product_image_url composite_prompt
          product_info person_s3)
       (\<lambda>composite_s3.
     generate_ugc_video_stage3 self generation_id user_id video_prompt veo3_mode duration
       aspect_ratio product_info person_s3 composite_s3 (time_time self 0)))"

text \<open>
  \<open>generate_ugc_video\<close>: the failure webhook is sent with \<open>stage=None\<close> and without a stage
  error field.
\<close>

definition generate_ugc_video ::
  "pipeline_orchestrator \<Rightarrow> string \<Rightarrow> string \<Rightarrow> string \<Rightarrow> string \<Rightarrow> string \<Rightarrow> string option
     \<Rightarrow> (string \<times> string) list option \<Rightarrow> string option \<Rightarrow> string \<Rightarrow> int \<Rightarrow> string
     \<Rightarrow> pydict run" where
  "generate_ugc_video self generation_id user_id stage1_mode product_image_url video_prompt
       person_prompt person_fields composite_prompt veo3_mode duration aspect_ratio =
     on_exception
       (generate_ugc_video_try self generation_id user_id stage1_mode product_image_url
          video_prompt person_prompt person_fields composite_prompt veo3_mode duration
          aspect_ratio)
       (\<lambda>ex. send_failure_webhook self generation_id ex None None)"

subsection \<open>Stages 1 and 2 (\<open>generate_person_and_composite\<close>)\<close>

text \<open>
  The enrichment of stage 1, attempted with a collaborator and a product image URL: one
  \<open>try\<close> around the analysis and the enhancement, as in the full run. The prompt is \<open>None\<close>
  when the caller gave none in ADVANCED mode.
\<close>

definition analyze_and_enhance_person ::
  "pipeline_orchestrator \<Rightarrow> string \<Rightarrow> string option \<Rightarrow> (pydict option \<times> string option) run" where
  "analyze_and_enhance_person self product_image_url person_prompt =
     (case openrouter self of
        None \<Rightarrow> returns (None, person_prompt)
      | Some orp \<Rightarrow>
          if product_image_url = [] then returns (None, person_prompt)
          else
            caught
              (and_then
                 (await (AnalyzeProductImage product_image_url)
                    (analyze_product_image orp product_image_url))
                 (\<lambda>product_info.
                    caught
                      (and_then
                         (await (EnhancePersonPrompt person_prompt product_info)
                            (enhance_person_prompt orp person_prompt product_info))
                         (\<lambda>enhanced. returns (Some product_info, Some enhanced)))
                      (Some product_info, person_prompt)))
              (None, person_prompt))"

text \<open>Stage 1: the value is \<open>(product_info, person_s3)\<close>.\<close>

definition generate_person_and_composite_stage1 ::
  "pipeline_orchestrator \<Rightarrow> string \<Rightarrow> string \<Rightarrow> string \<Rightarrow> string option
     \<Rightarrow> (string \<times> string) list option \<Rightarrow> string \<Rightarrow> (pydict option \<times> s3_object) run" where
  "generate_person_and_composite_stage1 self generation_id user_id stage1_mode person_prompt
       person_fields product_image_url =
     and_then
       (if stage1_mode = ''EASY'' then
          and_then (pure_call (build_person_prompt_from_fields self person_fields))
            (\<lambda>built. returns (Some built))
        else returns person_prompt)
       (\<lambda>base_person_prompt.
     and_then (analyze_and_enhance_person self product_image_url base_person_prompt)
       (\<lambda>(product_info, final_person_prompt).
     and_then
       (await
          (SubmitTextToImageJob
             \<lparr>t2i_prompt = final_person_prompt,
              t2i_negative_prompt = ''blurry, low quality, distorted'',
              t2i_width = 1080, t2i_height = 1440, t2i_num_inference_steps = 50,
              t2i_guidance_scale = 15 / 2\<rparr>)
          (fal_seedream_submit_text_to_image_job self
             \<lparr>t2i_prompt = final_person_prompt,
              t2i_negative_prompt = ''blurry, low quality, distorted'',
              t2i_width = 1080, t2i_height = 1440, t2i_num_inference_steps = 50,
              t2i_guidance_scale = 15 / 2\<rparr>))
       (\<lambda>person_job.
     and_then
       (await (FalWaitForCompletion person_job 120)
          (fal_seedream_wait_for_completion self person_job 120))
       (\<lambda>person_image_url.
     and_then
       (await (S3Upload PersonImage person_image_url user_id generation_id)
          (upload_person_image self person_image_url user_id generation_id))
       (\<lambda>person_s3.
     and_then
       (send_webhook self
          [(''generation_id'', VStr generation_id),
           (''status'', VStr ''processing''),
           (''current_stage'', VInt 1),
           (''progress'', VInt 50),
           (''generated_person_url'', VStr (s3_url person_s3)),
           (''s3_key_person'', VStr (s3_key person_s3))])
       (\<lambda>_.
     returns (product_info, person_s3)))))))"

text \<open>Stage 2: the value is the dictionary the run returns.\<close>

definition generate_person_and_composite_stage2 ::
  "pipeline_orchestrator \<Rightarrow> string \<Rightarrow> string \<Rightarrow> string \<Rightarrow> string option \<Rightarrow> pydict option
     \<Rightarrow> s3_object \<Rightarrow> rat \<Rightarrow> pydict run" where
  "generate_person_and_composite_stage2 self generation_id user_id product_image_url
       composite_prompt product_info person_s3 start_time =
     and_then
       (enhance_with self product_info
          (\<lambda>orp info.
             await
               (EnhanceCompositePrompt [(''url'', VStr (s3_url person_s3))] info
                  (case composite_prompt of None \<Rightarrow> [] | Some p \<Rightarrow> p))
               (enhance_composite_prompt orp [(''url'', VStr (s3_url person_s3))] info
                  (case composite_prompt of None \<Rightarrow> [] | Some p \<Rightarrow> p)))
          (case composite_prompt of
             None \<Rightarrow> ''product held naturally by person''
           | Some p \<Rightarrow> if p = [] then ''product held naturally by person'' else p))
       (\<lambda>composite_prompt_text.
     and_then
       (await
          (SubmitImageEditJob
             \<lparr>edit_base_image_url = s3_url person_s3, edit_prompt = composite_prompt_text,
              edit_overlay_image_url = product_image_url, edit_strength = 45 / 100,
              edit_mode = ''inpaint_and_blend''\<rparr>)
          (fal_seedream_submit_image_edit_job self
             \<lparr>edit_base_image_url = s3_url person_s3, edit_prompt = composite_prompt_text,
              edit_overlay_image_url = product_image_url, edit_strength = 45 / 100,
              edit_mode = ''inpaint_and_blend''\<rparr>))
       (\<lambda>composite_job.
     and_then
       (await (FalWaitForCompletion composite_job 120)
          (fal_seedream_wait_for_completion self composite_job 120))
       (\<lambda>composite_image_url.
     and_then
       (await (S3Upload CompositeImage composite_image_url user_id generation_id)
          (upload_composite_image self composite_image_url user_id generation_id))
       (\<lambda>composite_s3.
     and_then
       (send_webhook self
          [(''generation_id'', VStr generation_id),
           (''status'', VStr ''completed''),
           (''current_stage'', VInt 2),
           (''progress'', VInt 100),
           (''composite_image_url'', VStr (s3_url composite_s3)),
           (''s3_key_composite'', VStr (s3_key composite_s3))])
       (\<lambda>_.
     returns
       [(''success'', VBool True),
        (''generation_id'', VStr generation_id),
        (''person_url'', VStr (s3_url person_s3)),
        (''person_s3_key'', VStr (s3_key person_s3)),
        (''composite_url'', VStr (s3_url composite_s3)),
        (''composite_s3_key'', VStr (s3_key composite_s3)),
        (''total_time'', VRat (time_time self 1 - start_time))])))))"

definition generate_person_and_composite_try ::
  "pipeline_orchestrator \<Rightarrow> string \<Rightarrow> string \<Rightarrow> string \<Rightarrow> string option
     \<Rightarrow> (string \<times> string) list option \<Rightarrow> string \<Rightarrow> string option \<Rightarrow> pydict run" where
  "generate_person_and_composite_try self generation_id user_id stage1_mode person_prompt
       person_fields product_image_url composite_prompt =
     and_then
       (generate_person_and_composite_stage1 self generation_id user_id stage1_mode
          person_prompt person_fields product_image_url)
       (\<lambda>(product_info, person_s3).
     generate_person_and_composite_stage2 self generation_id user_id product_image_url
       composite_prompt product_info person_s3 (time_time self 0))"

text \<open>
  \<open>generate_person_and_composite\<close>: the failure webhook is sent with \<open>stage=None\<close> and
  without a stage error field.
\<close>

definition generate_person_and_composite ::
  "pipeline_orchestrator \<Rightarrow> string \<Rightarrow> string \<Rightarrow> string \<Rightarrow> string option
     \<Rightarrow> (string \<times> string) list option \<Rightarrow> string \<Rightarrow> string option \<Rightarrow> pydict run" where
  "generate_person_and_composite self generation_id user_id stage1_mode person_prompt
       person_fields product_image_url composite_prompt =
     on_exception
       (generate_person_and_composite_try self generation_id user_id stage1_mode person_prompt
          person_fields product_image_url composite_prompt)
       (\<lambda>ex. send_failure_webhook self generation_id ex None None)"
subsection \<open>Reading a run\<close>

text \<open>
  The exception raised by a stage call (a submission, a wait for completion or a storage
  upload), \<open>None\<close> for every other event and for a stage call that returned.
\<close>

fun stage_raised :: "event \<Rightarrow> pyexc option" where
  "stage_raised (SubmitTextToImageJob j (Inl ex)) = Some ex"
| "stage_raised (SubmitImageEditJob j (Inl ex)) = Some ex"
| "stage_raised (FalWaitForCompletion j t (Inl ex)) = Some ex"
| "stage_raised (SubmitVeo3Job u p calls (Inl ex)) = Some ex"
| "stage_raised (Veo3WaitForCompletion j p t i (Inl ex)) = Some ex"
| "stage_raised (S3Upload a u us g (Inl ex)) = Some ex"
| "stage_raised ev = None"

text \<open>A failure webhook: a call of \<open>_send_webhook\<close> whose payload has \<open>status\<close> \<open>FAILED\<close>.\<close>

fun is_failure_webhook :: "event \<Rightarrow> bool" where
  "is_failure_webhook (SendWebhook payload d) =
     (dict_get payload ''status'' = Some (VStr ''FAILED''))"
| "is_failure_webhook ev = False"

text \<open>
  The first stage call of a trace that raises: its exception and the events after it.
\<close>

fun first_stage_failure :: "event list \<Rightarrow> (pyexc \<times> event list) option" where
  "first_stage_failure [] = None"
| "first_stage_failure (ev # evs) =
     (case stage_raised ev of
        Some ex \<Rightarrow> Some (ex, evs)
      | None \<Rightarrow> first_stage_failure evs)"

text \<open>
  A piece of code stops at a failing stage call: the call is its last event and the
  exception of the call is what it raises.
\<close>

definition stops_at_failure :: "'a run \<Rightarrow> bool" where
  "stops_at_failure m =
     (case first_stage_failure (fst m) of
        None \<Rightarrow> True
      | Some (ex, rest) \<Rightarrow> rest = [] \<and> snd m = Inl ex)"

subsection \<open>A concrete orchestrator\<close>

definition person_stored :: s3_object where
  "person_stored =
     \<lparr>s3_url = ''https://s3.example/person-images/u1/g1.png?X-Amz-Signature=1'',
      s3_key = ''person-images/u1/g1.png''\<rparr>"

definition composite_stored :: s3_object where
  "composite_stored =
     \<lparr>s3_url = ''https://s3.example/composites/u1/g1.png?X-Amz-Signature=2'',
      s3_key = ''composites/u1/g1.png''\<rparr>"

definition video_stored :: s3_object where
  "video_stored =
     \<lparr>s3_url = ''https://s3.example/videos/u1/g1.mp4'', s3_key = ''videos/u1/g1.mp4''\<rparr>"

text \<open>
  The exception raised by the lookup \<open>settings.PYTHON_API_KEY\<close> on the \<open>Settings\<close> of
  \<open>app/core/config.py\<close>, which declares no such field.
\<close>

definition settings_attribute_error :: pyexc where
  "settings_attribute_error =
     \<lparr>exc_class = OtherException, type_name = ''AttributeError'',
      message = [CHR 0x27] @ ''Settings'' @ [CHR 0x27] @ '' object has no attribute ''
                @ [CHR 0x27] @ ''PYTHON_API_KEY'' @ [CHR 0x27]\<rparr>"

text \<open>
  Every provider and the storage answer; no enrichment collaborator is configured; a webhook
  URL is configured and the settings are those of the repository, so every webhook is
  discarded at the lookup of the key.
\<close>

definition demo_orchestrator :: pipeline_orchestrator where
  "demo_orchestrator =
     \<lparr>fal_seedream_submit_text_to_image_job = (\<lambda>j. Inr ''fal-1''),
      fal_seedream_submit_image_edit_job = (\<lambda>j. Inr ''fal-2''),
      fal_seedream_wait_for_completion =
        (\<lambda>j t. if j = ''fal-1'' then Inr ''https://fal.example/person.png''
                else Inr ''https://fal.example/composite.png''),
      veo3_provider = clients_kie_in_2s,
      veo3_provider_wait_for_completion = (\<lambda>j p t i. Inr ''https://kie.example/video.mp4''),
      openrouter = None,
      orchestrator_webhook_url = Some ''https://wasp.example/hook'',
      upload_person_image = (\<lambda>u us g. Inr person_stored),
      upload_composite_image = (\<lambda>u us g. Inr composite_stored),
      upload_video = (\<lambda>u us g. Inr video_stored),
      settings_PYTHON_API_KEY = Inl settings_attribute_error,
      httpx_post = (\<lambda>u d k. Inr 200),
      time_time = (\<lambda>n. if n = 0 then 1000 else 1245),
      build_person_prompt = (\<lambda>a g e x c b. ''character: '' @ a),
      build_person_prompt_from_fields =
        (\<lambda>kw. case kw of
                None \<Rightarrow> Inl \<lparr>exc_class = OtherException, type_name = ''TypeError'',
                              message = ''argument after ** must be a mapping, not NoneType''\<rparr>
              | Some form \<Rightarrow> Inr ''Medium shot portrait''),
      build_composite_prompt = (\<lambda>p d b. ''action: same person''),
      build_video_prompt = (\<lambda>d a e c t. ''dialogue: '' @ d),
      casual_dialogue_ill_typed =
        (\<lambda>t b. Inl \<lparr>exc_class = OtherException, type_name = ''AttributeError'',
                     message = ''object has no attribute lower''\<rparr>)\<rparr>"

text \<open>An enrichment collaborator whose calls all raise.\<close>

definition failing_openrouter :: openrouter_provider where
  "failing_openrouter =
     \<lparr>analyze_product_image = (\<lambda>u. Inl (Exception ''OpenRouter API error: overloaded'')),
      enhance_person_prompt = (\<lambda>p i. Inl (Exception ''OpenRouter API error: overloaded'')),
      enhance_composite_prompt = (\<lambda>p i u. Inl (Exception ''OpenRouter API error: overloaded'')),
      enhance_video_prompt = (\<lambda>c u t. Inl (Exception ''OpenRouter API error: overloaded''))\<rparr>"

text \<open>The same orchestrator with a text-to-image submission that raises.\<close>

definition person_submission_fails :: pipeline_orchestrator where
  "person_submission_fails =
     demo_orchestrator
       \<lparr>fal_seedream_submit_text_to_image_job :=
          (\<lambda>j. Inl (Exception ''Fal Seedream text-to-image failed: 503''))\<rparr>"

text \<open>Every event of a piece of code satisfies \<open>P\<close>.\<close>

definition all_events :: "(event \<Rightarrow> bool) \<Rightarrow> 'a run \<Rightarrow> bool" where
  "all_events P m = list_all P (fst m)"

section \<open>Properties of the classifier\<close>

lemma classify_error_cases:
  "classify_error e ctx =
     (if is_validation_error e (lower (message e)) then
        [(''error_type'', VErrorType VALIDATION_ERROR),
         (''error_message'', VStr (extract_validation_message e)),
         (''is_refundable'', VBool False),
         (''can_retry'', VBool True),
         (''technical_details'', VStr (message e))]
      else if is_timeout_error e (lower (message e)) then
        [(''error_type'', VErrorType TIMEOUT),
         (''error_message'', VStr (ERROR_MESSAGES TIMEOUT)),
         (''is_refundable'', VBool True),
         (''can_retry'', VBool True),
         (''technical_details'', VStr (message e))]
      else if is_service_error e (lower (message e)) then
        [(''error_type'', VErrorType SERVICE_ERROR),
         (''error_message'', VStr (ERROR_MESSAGES SERVICE_ERROR)),
         (''is_refundable'', VBool True),
         (''can_retry'', VBool True),
         (''technical_details'', VStr (message e))]
      else if is_user_error e (lower (message e)) then
        [(''error_type'', VErrorType USER_ERROR),
         (''error_message'', VStr ''Content violates usage policies. Please try with appropriate content.''),
         (''is_refundable'', VBool False),
         (''can_retry'', VBool False),
         (''technical_details'', VStr (message e))]
      else
        [(''error_type'', VErrorType SYSTEM_ERROR),
         (''error_message'', VStr (ERROR_MESSAGES SYSTEM_ERROR)),
         (''is_refundable'', VBool True),
         (''can_retry'', VBool True),
         (''technical_details'', VStr (type_name e @ '': '' @ message e))])"
  by (simp only: classify_error_def Let_def)

text \<open>
  Claim C1, as stated: every exception of a declared timeout type is classified TIMEOUT
  whatever its message says. The source tests for a validation error first, and that test
  scans the message for keywords; a timeout whose text contains \<open>invalid\<close> is therefore
  classified VALIDATION_ERROR.
\<close>

theorem classify_timeout_type_counterexample:
  "dict_get (classify_error
       \<lparr>exc_class = AsyncioTimeoutError, type_name = ''TimeoutError'',
        message = ''invalid response from upstream''\<rparr> None) ''error_type''
     = Some (VErrorType VALIDATION_ERROR)"
  by code_simp

text \<open>
  Claim C1, amended: an exception of a declared timeout type is classified TIMEOUT exactly
  when its lower-cased message contains no validation indicator, and VALIDATION_ERROR
  (not refundable) when it contains one.
\<close>

theorem classify_timeout_type:
  assumes "exc_class e = AsyncioTimeoutError \<or> exc_class e = BuiltinTimeoutError
             \<or> exc_class e = HttpxTimeoutException"
  shows "dict_get (classify_error e ctx) ''error_type'' =
           Some (VErrorType (if any_indicator validation_indicators (lower (message e))
                             then VALIDATION_ERROR else TIMEOUT))"
proof -
  have nv: "exc_class e \<noteq> ValueError"
    using assms by auto
  have t: "is_timeout_error e (lower (message e))"
    using assms by (auto simp: is_timeout_error_def)
  show ?thesis
    using nv t by (simp add: classify_error_cases dict_get_def is_validation_error_def)
qed

theorem classify_timeout_type_witness:
  "dict_get (classify_error
       \<lparr>exc_class = HttpxTimeoutException, type_name = ''ReadTimeout'',
        message = ''The read operation stalled''\<rparr> None) ''error_type''
     = Some (VErrorType TIMEOUT)"
proof -
  have a: "any_indicator validation_indicators (lower ''The read operation stalled'') = False"
    by code_simp
  show ?thesis
    using classify_timeout_type
      [of "\<lparr>exc_class = HttpxTimeoutException, type_name = ''ReadTimeout'',
            message = ''The read operation stalled''\<rparr>" None]
    by (simp add: a)
qed

text \<open>
  Claim C10: the result of \<open>classify_error\<close> always has exactly the five keys
  \<open>error_type\<close>, \<open>error_message\<close>, \<open>is_refundable\<close>, \<open>can_retry\<close>, \<open>technical_details\<close>;
  \<open>is_refundable\<close> is false exactly for VALIDATION_ERROR and USER_ERROR, and \<open>can_retry\<close>
  is false exactly for USER_ERROR.
\<close>

theorem classify_error_shape:
  "map fst (classify_error e ctx) =
     [''error_type'', ''error_message'', ''is_refundable'', ''can_retry'', ''technical_details'']
   \<and> (\<exists>t. dict_get (classify_error e ctx) ''error_type'' = Some (VErrorType t))
   \<and> (\<exists>m. dict_get (classify_error e ctx) ''error_message'' = Some (VStr m))
   \<and> (\<exists>d. dict_get (classify_error e ctx) ''technical_details'' = Some (VStr d))
   \<and> dict_get (classify_error e ctx) ''is_refundable'' =
        Some (VBool (dict_get (classify_error e ctx) ''error_type'' \<noteq> Some (VErrorType VALIDATION_ERROR)
                   \<and> dict_get (classify_error e ctx) ''error_type'' \<noteq> Some (VErrorType USER_ERROR)))
   \<and> dict_get (classify_error e ctx) ''can_retry'' =
        Some (VBool (dict_get (classify_error e ctx) ''error_type'' \<noteq> Some (VErrorType USER_ERROR)))"
  by (simp add: classify_error_cases dict_get_def)

theorem classify_error_shape_witness:
  "map fst (classify_error (Exception ''rate limit exceeded (429)'') None) =
     [''error_type'', ''error_message'', ''is_refundable'', ''can_retry'', ''technical_details'']
   \<and> dict_get (classify_error (Exception ''rate limit exceeded (429)'') None) ''error_type''
        = Some (VErrorType SERVICE_ERROR)
   \<and> dict_get (classify_error (Exception ''rate limit exceeded (429)'') None) ''is_refundable''
        = Some (VBool True)
   \<and> dict_get (classify_error (Exception ''rate limit exceeded (429)'') None) ''can_retry''
        = Some (VBool True)"
proof -
  have t: "dict_get (classify_error (Exception ''rate limit exceeded (429)'') None) ''error_type''
        = Some (VErrorType SERVICE_ERROR)"
    by code_simp
  show ?thesis
    using classify_error_shape [of "Exception ''rate limit exceeded (429)''" None] t
    by auto
qed

section \<open>Properties of the provider fallback\<close>

lemma starts_with_append: "starts_with (s @ b) s"
  by (induction s) simp_all

lemma str_in_suffix: "str_in s (s @ b)"
proof (cases "s @ b")
  case Nil
  then show ?thesis by simp
next
  case (Cons c cs)
  have "starts_with (s @ b) s"
    by (rule starts_with_append)
  then have "starts_with (c # cs) s"
    by (simp only: Cons)
  then have "str_in s (c # cs)"
    by simp
  then show ?thesis
    by (simp only: Cons)
qed

lemma str_in_Cons: "str_in s t \<Longrightarrow> str_in s (c # t)"
  by simp

lemma str_in_append: "str_in s (a @ s @ b)"
  by (induction a) (simp_all add: str_in_suffix)

lemma str_in_append_right: "str_in s (a @ s)"
  using str_in_append [of s a "[]"] by simp

lemma wait_for_cases:
  "wait_for aw t = Inl e \<longleftrightarrow>
     (\<not> elapsed aw < of_int t \<and> e = asyncio_TimeoutError)
   \<or> (elapsed aw < of_int t \<and> outcome aw = Inl e)"
  by (auto simp: wait_for_def)

lemma wait_for_fails:
  assumes "\<not> elapsed aw < of_int t \<or> (\<exists>e. outcome aw = Inl e)"
  shows "\<exists>e. wait_for aw t = Inl e"
proof (cases "elapsed aw < of_int t")
  case True
  with assms obtain e where "outcome aw = Inl e"
    by blast
  with True show ?thesis
    by (simp add: wait_for_def)
next
  case False
  then show ?thesis
    by (simp add: wait_for_def)
qed

lemma submit_veo3_job_kie:
  assumes "preferred_provider \<noteq> ''fal''"
  shows "submit_veo3_job clients image_url prompt use_fast duration aspect_ratio webhook_url
           preferred_provider fallback_timeout =
     (case wait_for (kie_submit_image_to_video_job clients
                       (KieRequest image_url prompt use_fast aspect_ratio webhook_url))
                    fallback_timeout of
        Inr response \<Rightarrow>
          ([KieSubmitVideo (KieRequest image_url prompt use_fast aspect_ratio webhook_url)],
           Inr \<lparr>job_id = resp_job_id response, provider = ''kie'',
                estimated_time = get_estimated_time response use_fast,
                fallback_triggered = False, primary_provider = ''kie'', primary_error = None\<rparr>)
      | Inl e \<Rightarrow>
          ((if started (kie_submit_image_to_video_job clients
                          (KieRequest image_url prompt use_fast aspect_ratio webhook_url))
                       fallback_timeout
            then [KieSubmitVideo (KieRequest image_url prompt use_fast aspect_ratio webhook_url)]
            else [])
           @ [FalSubmitVideo (FalRequest image_url prompt duration aspect_ratio webhook_url use_fast)],
           case fal_submit_image_to_video_job clients
                  (FalRequest image_url prompt duration aspect_ratio webhook_url use_fast) of
             Inr response \<Rightarrow>
               Inr \<lparr>job_id = resp_job_id response, provider = ''fal'',
                    estimated_time = get_estimated_time response use_fast,
                    fallback_triggered = True, primary_provider = ''kie'',
                    primary_error = Some (primary_error_text e fallback_timeout)\<rparr>
           | Inl fal_error \<Rightarrow>
               Inl (all_providers_failed (primary_error_text e fallback_timeout) fal_error)))"
  using assms
  by (simp add: submit_veo3_job_def submit_to_kie_def submit_to_fal_def with_fallback_info_def
        wait_for_def started_def Let_def split: sum.splits)

lemma started_cases:
  "0 < t \<Longrightarrow> started aw t"
  "t \<le> 0 \<Longrightarrow> 0 \<le> elapsed aw \<Longrightarrow> \<not> started aw t"
  by (simp_all add: started_def)

lemma submit_veo3_job_fal:
  "submit_veo3_job clients image_url prompt use_fast duration aspect_ratio webhook_url
           ''fal'' fallback_timeout =
     ([FalSubmitVideo (FalRequest image_url prompt duration aspect_ratio webhook_url use_fast)],
      case fal_submit_image_to_video_job clients
             (FalRequest image_url prompt duration aspect_ratio webhook_url use_fast) of
        Inr response \<Rightarrow>
          Inr \<lparr>job_id = resp_job_id response, provider = ''fal'',
               estimated_time = get_estimated_time response use_fast,
               fallback_triggered = False, primary_provider = ''fal'', primary_error = None\<rparr>
      | Inl e \<Rightarrow> Inl e)"
  by (simp add: submit_veo3_job_def submit_to_fal_def with_fallback_info_def Let_def
        split: sum.splits)

text \<open>
  Claim C2: when \<open>submit_veo3_job\<close> runs with \<open>preferred_provider = "kie"\<close> and the Kie
  submission returns before \<open>fallback_timeout\<close> seconds have passed, the result is Kie's job
  with \<open>fallback_triggered = False\<close>, and the only provider call issued is the Kie
  submission: the Fal submission is never invoked.
\<close>

theorem primary_resolves_no_fallback:
  assumes "preferred_provider = ''kie''"
    and "kie_submit_image_to_video_job clients
           (KieRequest image_url prompt use_fast aspect_ratio webhook_url) = aw"
    and "elapsed aw < of_int fallback_timeout"
    and "outcome aw = Inr response"
  shows "submit_veo3_job clients image_url prompt use_fast duration aspect_ratio webhook_url
           preferred_provider fallback_timeout =
           ([KieSubmitVideo (KieRequest image_url prompt use_fast aspect_ratio webhook_url)],
            Inr \<lparr>job_id = resp_job_id response, provider = ''kie'',
                 estimated_time = get_estimated_time response use_fast,
                 fallback_triggered = False, primary_provider = ''kie'', primary_error = None\<rparr>)
       \<and> filter is_fal_submit
            (fst (submit_veo3_job clients image_url prompt use_fast duration aspect_ratio
                    webhook_url preferred_provider fallback_timeout)) = []"
proof -
  have w: "wait_for aw fallback_timeout = Inr response"
    using assms(3,4) by (simp add: wait_for_def)
  have ne: "preferred_provider \<noteq> ''fal''"
    using assms(1) by simp
  show ?thesis
    by (simp add: submit_veo3_job_kie [OF ne] assms(2) w)
qed

theorem primary_resolves_no_fallback_witness:
  "submit_veo3_job clients_kie_in_2s ''img'' ''hello'' False 8 ''9:16'' None ''kie'' 60 =
     ([KieSubmitVideo (KieRequest ''img'' ''hello'' False ''9:16'' None)],
      Inr \<lparr>job_id = ''kie_abc123'', provider = ''kie'', estimated_time = 240,
           fallback_triggered = False, primary_provider = ''kie'', primary_error = None\<rparr>)"
proof -
  have a: "kie_submit_image_to_video_job clients_kie_in_2s
             (KieRequest ''img'' ''hello'' False ''9:16'' None) = \<lparr>elapsed = 2, outcome = Inr kie_job\<rparr>"
    by (simp add: clients_kie_in_2s_def)
  have b: "elapsed \<lparr>elapsed = 2, outcome = Inr kie_job\<rparr> < of_int 60"
    by simp
  have c: "outcome \<lparr>elapsed = 2, outcome = Inr kie_job\<rparr> = Inr kie_job"
    by simp
  show ?thesis
    using primary_resolves_no_fallback [OF refl a b c, where duration = 8]
    by (simp add: kie_job_def get_estimated_time_def)
qed

text \<open>
  Claim C3: when the Kie submission does not finish before \<open>fallback_timeout\<close> or raises an
  exception, the Fal submission is invoked exactly once (after the Kie submission, when the
  timeout is positive); if it succeeds the result has \<open>fallback_triggered = True\<close>,
  \<open>primary_provider = "kie"\<close> and \<open>primary_error\<close> set to the primary's error: the text
  \<open>Kie.ai timed out after <n>s\<close> when the deadline passed (or Kie's own exception is an
  \<open>asyncio.TimeoutError\<close>), and \<open>Kie.ai failed: \<close> followed by the text of Kie's exception
  otherwise. Conversely, whatever the preferred provider, a returned result with
  \<open>fallback_triggered = True\<close> only arises when the Kie attempt timed out or raised.
\<close>

theorem primary_fails_fallback_once:
  "(preferred_provider = ''kie''
      \<and> (\<not> elapsed (kie_submit_image_to_video_job clients
                      (KieRequest image_url prompt use_fast aspect_ratio webhook_url))
              < of_int fallback_timeout
         \<or> (\<exists>e. outcome (kie_submit_image_to_video_job clients
                      (KieRequest image_url prompt use_fast aspect_ratio webhook_url)) = Inl e))
    \<longrightarrow> length (filter is_fal_submit
            (fst (submit_veo3_job clients image_url prompt use_fast duration aspect_ratio
                    webhook_url preferred_provider fallback_timeout))) = 1
      \<and> (0 < fallback_timeout
          \<longrightarrow> fst (submit_veo3_job clients image_url prompt use_fast duration aspect_ratio
                    webhook_url preferred_provider fallback_timeout) =
              [KieSubmitVideo (KieRequest image_url prompt use_fast aspect_ratio webhook_url),
               FalSubmitVideo (FalRequest image_url prompt duration aspect_ratio webhook_url
                                 use_fast)])
      \<and> (\<forall>response.
            fal_submit_image_to_video_job clients
              (FalRequest image_url prompt duration aspect_ratio webhook_url use_fast) = Inr response
            \<longrightarrow> (\<exists>e. wait_for (kie_submit_image_to_video_job clients
                          (KieRequest image_url prompt use_fast aspect_ratio webhook_url))
                        fallback_timeout = Inl e
                  \<and> snd (submit_veo3_job clients image_url prompt use_fast duration aspect_ratio
                          webhook_url preferred_provider fallback_timeout) =
                      Inr \<lparr>job_id = resp_job_id response, provider = ''fal'',
                           estimated_time = get_estimated_time response use_fast,
                           fallback_triggered = True, primary_provider = ''kie'',
                           primary_error = Some (primary_error_text e fallback_timeout)\<rparr>)
              \<and> (\<not> elapsed (kie_submit_image_to_video_job clients
                              (KieRequest image_url prompt use_fast aspect_ratio webhook_url))
                      < of_int fallback_timeout
                  \<longrightarrow> snd (submit_veo3_job clients image_url prompt use_fast duration
                          aspect_ratio webhook_url preferred_provider fallback_timeout) =
                      Inr \<lparr>job_id = resp_job_id response, provider = ''fal'',
                           estimated_time = get_estimated_time response use_fast,
                           fallback_triggered = True, primary_provider = ''kie'',
                           primary_error =
                             Some (''Kie.ai timed out after '' @ str_int fallback_timeout @ ''s'')\<rparr>)
              \<and> (\<forall>e. elapsed (kie_submit_image_to_video_job clients
                              (KieRequest image_url prompt use_fast aspect_ratio webhook_url))
                        < of_int fallback_timeout
                      \<and> outcome (kie_submit_image_to_video_job clients
                              (KieRequest image_url prompt use_fast aspect_ratio webhook_url)) = Inl e
                  \<longrightarrow> snd (submit_veo3_job clients image_url prompt use_fast duration
                          aspect_ratio webhook_url preferred_provider fallback_timeout) =
                      Inr \<lparr>job_id = resp_job_id response, provider = ''fal'',
                           estimated_time = get_estimated_time response use_fast,
                           fallback_triggered = True, primary_provider = ''kie'',
                           primary_error =
                             Some (if exc_class e = AsyncioTimeoutError
                                   then ''Kie.ai timed out after '' @ str_int fallback_timeout @ ''s''
                                   else ''Kie.ai failed: '' @ message e)\<rparr>)))
   \<and> (\<forall>r. snd (submit_veo3_job clients image_url prompt use_fast duration aspect_ratio
                 webhook_url preferred_provider fallback_timeout) = Inr r
            \<and> fallback_triggered r
        \<longrightarrow> preferred_provider \<noteq> ''fal''
          \<and> primary_provider r = ''kie'' \<and> primary_error r \<noteq> None
          \<and> (\<not> elapsed (kie_submit_image_to_video_job clients
                      (KieRequest image_url prompt use_fast aspect_ratio webhook_url))
                < of_int fallback_timeout
             \<or> (\<exists>e. outcome (kie_submit_image_to_video_job clients
                      (KieRequest image_url prompt use_fast aspect_ratio webhook_url)) = Inl e)))"
proof (intro conjI impI allI)
  assume h: "preferred_provider = ''kie''
      \<and> (\<not> elapsed (kie_submit_image_to_video_job clients
                      (KieRequest image_url prompt use_fast aspect_ratio webhook_url))
              < of_int fallback_timeout
         \<or> (\<exists>e. outcome (kie_submit_image_to_video_job clients
                      (KieRequest image_url prompt use_fast aspect_ratio webhook_url)) = Inl e))"
  then have ne: "preferred_provider \<noteq> ''fal''"
    by simp
  from h obtain e where w:
    "wait_for (kie_submit_image_to_video_job clients
                 (KieRequest image_url prompt use_fast aspect_ratio webhook_url))
              fallback_timeout = Inl e"
    using wait_for_fails by blast
  show "length (filter is_fal_submit
            (fst (submit_veo3_job clients image_url prompt use_fast duration aspect_ratio
                    webhook_url preferred_provider fallback_timeout))) = 1"
    by (simp add: submit_veo3_job_kie [OF ne] w)
  {
    assume "0 < fallback_timeout"
    then show "fst (submit_veo3_job clients image_url prompt use_fast duration aspect_ratio
                    webhook_url preferred_provider fallback_timeout) =
              [KieSubmitVideo (KieRequest image_url prompt use_fast aspect_ratio webhook_url),
               FalSubmitVideo (FalRequest image_url prompt duration aspect_ratio webhook_url
                                 use_fast)]"
      by (simp add: submit_veo3_job_kie [OF ne] w started_cases)
  }
  fix response
  assume f: "fal_submit_image_to_video_job clients
              (FalRequest image_url prompt duration aspect_ratio webhook_url use_fast) = Inr response"
  show "\<exists>e. wait_for (kie_submit_image_to_video_job clients
                          (KieRequest image_url prompt use_fast aspect_ratio webhook_url))
                        fallback_timeout = Inl e
                  \<and> snd (submit_veo3_job clients image_url prompt use_fast duration aspect_ratio
                          webhook_url preferred_provider fallback_timeout) =
                      Inr \<lparr>job_id = resp_job_id response, provider = ''fal'',
                           estimated_time = get_estimated_time response use_fast,
                           fallback_triggered = True, primary_provider = ''kie'',
                           primary_error = Some (primary_error_text e fallback_timeout)\<rparr>"
    by (rule exI [of _ e]) (simp add: submit_veo3_job_kie [OF ne] w f)
  {
    assume "\<not> elapsed (kie_submit_image_to_video_job clients
                              (KieRequest image_url prompt use_fast aspect_ratio webhook_url))
                      < of_int fallback_timeout"
    then have "wait_for (kie_submit_image_to_video_job clients
                 (KieRequest image_url prompt use_fast aspect_ratio webhook_url))
              fallback_timeout = Inl asyncio_TimeoutError"
      by (simp add: wait_for_def)
    then show "snd (submit_veo3_job clients image_url prompt use_fast duration
                          aspect_ratio webhook_url preferred_provider fallback_timeout) =
                      Inr \<lparr>job_id = resp_job_id response, provider = ''fal'',
                           estimated_time = get_estimated_time response use_fast,
                           fallback_triggered = True, primary_provider = ''kie'',
                           primary_error =
                             Some (''Kie.ai timed out after '' @ str_int fallback_timeout @ ''s'')\<rparr>"
      by (simp add: submit_veo3_job_kie [OF ne] f primary_error_text_def asyncio_TimeoutError_def)
  }
  fix e'
  assume "elapsed (kie_submit_image_to_video_job clients
                              (KieRequest image_url prompt use_fast aspect_ratio webhook_url))
                        < of_int fallback_timeout
                      \<and> outcome (kie_submit_image_to_video_job clients
                              (KieRequest image_url prompt use_fast aspect_ratio webhook_url)) = Inl e'"
  then have "wait_for (kie_submit_image_to_video_job clients
                 (KieRequest image_url prompt use_fast aspect_ratio webhook_url))
              fallback_timeout = Inl e'"
    by (simp add: wait_for_def)
  then show "snd (submit_veo3_job clients image_url prompt use_fast duration
                          aspect_ratio webhook_url preferred_provider fallback_timeout) =
                      Inr \<lparr>job_id = resp_job_id response, provider = ''fal'',
                           estimated_time = get_estimated_time response use_fast,
                           fallback_triggered = True, primary_provider = ''kie'',
                           primary_error =
                             Some (if exc_class e' = AsyncioTimeoutError
                                   then ''Kie.ai timed out after '' @ str_int fallback_timeout @ ''s''
                                   else ''Kie.ai failed: '' @ message e')\<rparr>"
    by (simp add: submit_veo3_job_kie [OF ne] f primary_error_text_def)
next
  fix r
  assume h: "snd (submit_veo3_job clients image_url prompt use_fast duration aspect_ratio
                 webhook_url preferred_provider fallback_timeout) = Inr r
            \<and> fallback_triggered r"
  show ne: "preferred_provider \<noteq> ''fal''"
    using h by (auto simp: submit_veo3_job_fal split: sum.splits)
  show "primary_provider r = ''kie''"
    using h by (auto simp: submit_veo3_job_kie [OF ne] split: sum.splits)
  show "primary_error r \<noteq> None"
    using h by (auto simp: submit_veo3_job_kie [OF ne] split: sum.splits)
  show "\<not> elapsed (kie_submit_image_to_video_job clients
                      (KieRequest image_url prompt use_fast aspect_ratio webhook_url))
                < of_int fallback_timeout
             \<or> (\<exists>e. outcome (kie_submit_image_to_video_job clients
                      (KieRequest image_url prompt use_fast aspect_ratio webhook_url)) = Inl e)"
    using h by (auto simp: submit_veo3_job_kie [OF ne] wait_for_def split: sum.splits if_splits)
qed

text \<open>
  The theorem at two concrete runs with \<open>fallback_timeout = 60\<close>: Kie answers after 75
  seconds (the deadline passes), and Kie raises after one second. Fal answers in both.
\<close>

theorem primary_fails_fallback_once_witness:
  "length (filter is_fal_submit
     (fst (submit_veo3_job clients_kie_stalls ''img'' ''hello'' False 8 ''9:16'' None ''kie'' 60))) = 1
   \<and> snd (submit_veo3_job clients_kie_stalls ''img'' ''hello'' False 8 ''9:16'' None ''kie'' 60) =
       Inr \<lparr>job_id = ''fal_xyz789'', provider = ''fal'', estimated_time = 240,
            fallback_triggered = True, primary_provider = ''kie'',
            primary_error = Some ''Kie.ai timed out after 60s''\<rparr>
   \<and> \<not> elapsed (kie_submit_image_to_video_job clients_kie_stalls
                   (KieRequest ''img'' ''hello'' False ''9:16'' None)) < of_int 60
   \<and> fst (submit_veo3_job clients_kie_raises ''img'' ''hello'' False 8 ''9:16'' None ''kie'' 60) =
       [KieSubmitVideo (KieRequest ''img'' ''hello'' False ''9:16'' None),
        FalSubmitVideo (FalRequest ''img'' ''hello'' 8 ''9:16'' None False)]
   \<and> snd (submit_veo3_job clients_kie_raises ''img'' ''hello'' False 8 ''9:16'' None ''kie'' 60) =
       Inr \<lparr>job_id = ''fal_xyz789'', provider = ''fal'', estimated_time = 240,
            fallback_triggered = True, primary_provider = ''kie'',
            primary_error = Some ''Kie.ai failed: Kie.ai API error (500): boom''\<rparr>"
proof -
  have s: "str_int 60 = ''60''"
    by code_simp
  have k: "kie_submit_image_to_video_job clients_kie_stalls
             (KieRequest ''img'' ''hello'' False ''9:16'' None) = \<lparr>elapsed = 75, outcome = Inr kie_job\<rparr>"
    by (simp add: clients_kie_stalls_def)
  have f: "fal_submit_image_to_video_job clients_kie_stalls
             (FalRequest ''img'' ''hello'' 8 ''9:16'' None False) = Inr fal_job"
    by (simp add: clients_kie_stalls_def)
  have w: "wait_for \<lparr>elapsed = 75, outcome = Inr kie_job\<rparr> 60 = Inl asyncio_TimeoutError"
    by (simp add: wait_for_def)
  have stalls:
    "length (filter is_fal_submit
       (fst (submit_veo3_job clients_kie_stalls ''img'' ''hello'' False 8 ''9:16'' None ''kie'' 60))) = 1
     \<and> snd (submit_veo3_job clients_kie_stalls ''img'' ''hello'' False 8 ''9:16'' None ''kie'' 60) =
         Inr \<lparr>job_id = ''fal_xyz789'', provider = ''fal'', estimated_time = 240,
              fallback_triggered = True, primary_provider = ''kie'',
              primary_error = Some ''Kie.ai timed out after 60s''\<rparr>
     \<and> \<not> elapsed (kie_submit_image_to_video_job clients_kie_stalls
                     (KieRequest ''img'' ''hello'' False ''9:16'' None)) < of_int 60"
    using primary_fails_fallback_once
      [where preferred_provider = "''kie''" and clients = clients_kie_stalls
         and image_url = "''img''" and prompt = "''hello''" and use_fast = False
         and aspect_ratio = "''9:16''" and webhook_url = None and fallback_timeout = 60
         and duration = 8]
    by (simp add: k f w s fal_job_def get_estimated_time_def primary_error_text_def
          asyncio_TimeoutError_def)
  have k2: "kie_submit_image_to_video_job clients_kie_raises
             (KieRequest ''img'' ''hello'' False ''9:16'' None) =
           \<lparr>elapsed = 1, outcome = Inl (Exception ''Kie.ai API error (500): boom'')\<rparr>"
    by (simp add: clients_kie_raises_def)
  have f2: "fal_submit_image_to_video_job clients_kie_raises
             (FalRequest ''img'' ''hello'' 8 ''9:16'' None False) = Inr fal_job"
    by (simp add: clients_kie_raises_def)
  have c2: "exc_class (Exception ''Kie.ai API error (500): boom'') \<noteq> AsyncioTimeoutError"
    and m2: "message (Exception ''Kie.ai API error (500): boom'') = ''Kie.ai API error (500): boom''"
    by (simp_all add: Exception_def)
  have raises:
    "fst (submit_veo3_job clients_kie_raises ''img'' ''hello'' False 8 ''9:16'' None ''kie'' 60) =
       [KieSubmitVideo (KieRequest ''img'' ''hello'' False ''9:16'' None),
        FalSubmitVideo (FalRequest ''img'' ''hello'' 8 ''9:16'' None False)]
     \<and> snd (submit_veo3_job clients_kie_raises ''img'' ''hello'' False 8 ''9:16'' None ''kie'' 60) =
       Inr \<lparr>job_id = ''fal_xyz789'', provider = ''fal'', estimated_time = 240,
            fallback_triggered = True, primary_provider = ''kie'',
            primary_error = Some ''Kie.ai failed: Kie.ai API error (500): boom''\<rparr>"
    using primary_fails_fallback_once
      [where preferred_provider = "''kie''" and clients = clients_kie_raises
         and image_url = "''img''" and prompt = "''hello''" and use_fast = False
         and aspect_ratio = "''9:16''" and webhook_url = None and fallback_timeout = 60
         and duration = 8]
    by (simp add: k2 f2 c2 m2 fal_job_def get_estimated_time_def)
  from stalls raises show ?thesis
    by simp
qed

text \<open>
  Claim C4: when the Kie attempt fails (deadline passed, or an exception raised) and the Fal
  submission raises as well, \<open>submit_veo3_job\<close> raises one exception whose message contains
  the text recorded for the primary failure (the time-out text when the deadline passed,
  \<open>Kie.ai failed: \<close> with the text of Kie's own exception when Kie raised) and the text of
  Fal's exception. With a positive timeout exactly two submissions were made, one to each
  provider; with \<open>fallback_timeout <= 0\<close> the Kie submission is cancelled before it starts
  and the Fal submission is the only one. There is never a third.
\<close>

theorem both_providers_fail:
  assumes "preferred_provider = ''kie''"
    and "\<not> elapsed (kie_submit_image_to_video_job clients
                      (KieRequest image_url prompt use_fast aspect_ratio webhook_url))
              < of_int fallback_timeout
         \<or> (\<exists>e. outcome (kie_submit_image_to_video_job clients
                      (KieRequest image_url prompt use_fast aspect_ratio webhook_url)) = Inl e)"
    and "fal_submit_image_to_video_job clients
           (FalRequest image_url prompt duration aspect_ratio webhook_url use_fast) = Inl fal_error"
  shows "\<exists>e agg.
           wait_for (kie_submit_image_to_video_job clients
                       (KieRequest image_url prompt use_fast aspect_ratio webhook_url))
                    fallback_timeout = Inl e
         \<and> snd (submit_veo3_job clients image_url prompt use_fast duration aspect_ratio
                  webhook_url preferred_provider fallback_timeout) = Inl agg
         \<and> (0 < fallback_timeout
             \<longrightarrow> fst (submit_veo3_job clients image_url prompt use_fast duration aspect_ratio
                       webhook_url preferred_provider fallback_timeout) =
                 [KieSubmitVideo (KieRequest image_url prompt use_fast aspect_ratio webhook_url),
                  FalSubmitVideo (FalRequest image_url prompt duration aspect_ratio webhook_url
                                    use_fast)])
         \<and> (fallback_timeout \<le> 0
               \<and> 0 \<le> elapsed (kie_submit_image_to_video_job clients
                                (KieRequest image_url prompt use_fast aspect_ratio webhook_url))
             \<longrightarrow> fst (submit_veo3_job clients image_url prompt use_fast duration aspect_ratio
                       webhook_url preferred_provider fallback_timeout) =
                 [FalSubmitVideo (FalRequest image_url prompt duration aspect_ratio webhook_url
                                    use_fast)]
               \<and> e = asyncio_TimeoutError)
         \<and> length (fst (submit_veo3_job clients image_url prompt use_fast duration aspect_ratio
                          webhook_url preferred_provider fallback_timeout)) \<le> 2
         \<and> length (filter is_fal_submit
                     (fst (submit_veo3_job clients image_url prompt use_fast duration
                             aspect_ratio webhook_url preferred_provider fallback_timeout))) = 1
         \<and> agg = all_providers_failed (primary_error_text e fallback_timeout) fal_error
         \<and> str_in (primary_error_text e fallback_timeout) (message agg)
         \<and> (\<not> elapsed (kie_submit_image_to_video_job clients
                          (KieRequest image_url prompt use_fast aspect_ratio webhook_url))
                 < of_int fallback_timeout
             \<longrightarrow> str_in (''Kie.ai timed out after '' @ str_int fallback_timeout @ ''s'')
                   (message agg))
         \<and> (exc_class e \<noteq> AsyncioTimeoutError
             \<longrightarrow> str_in (''Kie.ai failed: '' @ message e) (message agg)
               \<and> str_in (message e) (message agg))
         \<and> str_in (message fal_error) (message agg)"
proof -
  have ne: "preferred_provider \<noteq> ''fal''"
    using assms(1) by simp
  let ?K = "kie_submit_image_to_video_job clients
              (KieRequest image_url prompt use_fast aspect_ratio webhook_url)"
  let ?run = "submit_veo3_job clients image_url prompt use_fast duration aspect_ratio
                webhook_url preferred_provider fallback_timeout"
  from assms(2) obtain e where w: "wait_for ?K fallback_timeout = Inl e"
    using wait_for_fails by blast
  let ?p = "primary_error_text e fallback_timeout"
  let ?agg = "all_providers_failed ?p fal_error"
  have m: "message ?agg =
             (''Veo3 video generation failed on all providers.'' @ [CHR 0x0A] @ ''Primary (Kie.ai): '')
             @ ?p @ ([CHR 0x0A] @ ''Fallback (Fal.ai): '' @ message fal_error)"
    by (simp add: all_providers_failed_def Exception_def)
  have p1: "str_in ?p (message ?agg)"
    unfolding m by (rule str_in_append)
  have m2: "message ?agg =
             (''Veo3 video generation failed on all providers.'' @ [CHR 0x0A] @ ''Primary (Kie.ai): ''
              @ ?p @ [CHR 0x0A] @ ''Fallback (Fal.ai): '') @ message fal_error"
    by (simp add: all_providers_failed_def Exception_def)
  have p2: "str_in (message fal_error) (message ?agg)"
    unfolding m2 by (rule str_in_append_right)
  have p3: "exc_class e \<noteq> AsyncioTimeoutError
             \<longrightarrow> str_in (''Kie.ai failed: '' @ message e) (message ?agg)
               \<and> str_in (message e) (message ?agg)"
  proof
    assume c: "exc_class e \<noteq> AsyncioTimeoutError"
    then have pe: "?p = ''Kie.ai failed: '' @ message e"
      by (simp add: primary_error_text_def)
    from p1 have a: "str_in (''Kie.ai failed: '' @ message e) (message ?agg)"
      by (simp only: pe)
    from c have "message ?agg =
             (''Veo3 video generation failed on all providers.'' @ [CHR 0x0A] @ ''Primary (Kie.ai): ''
              @ ''Kie.ai failed: '')
             @ message e @ ([CHR 0x0A] @ ''Fallback (Fal.ai): '' @ message fal_error)"
      by (simp add: all_providers_failed_def Exception_def primary_error_text_def)
    then have "str_in (message e) (message ?agg)"
      by (simp only: str_in_append)
    with a show "str_in (''Kie.ai failed: '' @ message e) (message ?agg)
               \<and> str_in (message e) (message ?agg)"
      by simp
  qed
  have p4: "\<not> elapsed ?K < of_int fallback_timeout
             \<longrightarrow> str_in (''Kie.ai timed out after '' @ str_int fallback_timeout @ ''s'')
                   (message ?agg)"
  proof
    assume "\<not> elapsed ?K < of_int fallback_timeout"
    with w have "e = asyncio_TimeoutError"
      by (simp add: wait_for_def)
    then have pe: "?p = ''Kie.ai timed out after '' @ str_int fallback_timeout @ ''s''"
      by (simp add: primary_error_text_def asyncio_TimeoutError_def)
    from p1 show "str_in (''Kie.ai timed out after '' @ str_int fallback_timeout @ ''s'')
                   (message ?agg)"
      by (simp only: pe)
  qed
  have r: "?run =
             ((if started ?K fallback_timeout
               then [KieSubmitVideo (KieRequest image_url prompt use_fast aspect_ratio webhook_url)]
               else [])
              @ [FalSubmitVideo (FalRequest image_url prompt duration aspect_ratio webhook_url
                                   use_fast)],
              Inl ?agg)"
    by (simp add: submit_veo3_job_kie [OF ne] w assms(3))
  have t1: "0 < fallback_timeout
             \<longrightarrow> fst ?run =
                 [KieSubmitVideo (KieRequest image_url prompt use_fast aspect_ratio webhook_url),
                  FalSubmitVideo (FalRequest image_url prompt duration aspect_ratio webhook_url
                                    use_fast)]"
    by (simp add: r started_cases)
  have t2: "fallback_timeout \<le> 0 \<and> 0 \<le> elapsed ?K
             \<longrightarrow> fst ?run =
                 [FalSubmitVideo (FalRequest image_url prompt duration aspect_ratio webhook_url
                                    use_fast)]
               \<and> e = asyncio_TimeoutError"
  proof
    assume a: "fallback_timeout \<le> 0 \<and> 0 \<le> elapsed ?K"
    then have "(of_int fallback_timeout :: rat) \<le> 0" and "0 \<le> elapsed ?K"
      by simp_all
    then have "\<not> elapsed ?K < of_int fallback_timeout"
      by linarith
    with w have "e = asyncio_TimeoutError"
      by (simp add: wait_for_def)
    moreover from a have "\<not> started ?K fallback_timeout"
      by (simp add: started_cases)
    ultimately show "fst ?run =
                 [FalSubmitVideo (FalRequest image_url prompt duration aspect_ratio webhook_url
                                    use_fast)]
               \<and> e = asyncio_TimeoutError"
      by (simp add: r)
  qed
  have t3: "length (fst ?run) \<le> 2"
    by (simp add: r)
  have t4: "length (filter is_fal_submit (fst ?run)) = 1"
    by (simp add: r)
  have s: "snd ?run = Inl ?agg"
    by (simp add: r)
  show ?thesis
    apply (rule exI [of _ e])
    apply (rule exI [of _ "all_providers_failed (primary_error_text e fallback_timeout) fal_error"])
    apply (intro conjI)
    apply (rule w)
    apply (rule s)
    apply (rule t1)
    apply (rule t2)
    apply (rule t3)
    apply (rule t4)
    apply (rule refl)
    apply (rule p1)
    apply (rule p4)
    apply (rule p3)
    apply (rule p2)
    done
qed

text \<open>
  The theorem at two concrete runs in which both providers raise: with
  \<open>fallback_timeout = 60\<close> both submissions are made, with \<open>fallback_timeout = 0\<close> only the
  Fal submission.
\<close>

theorem both_providers_fail_witness:
  "submit_veo3_job clients_both_fail ''img'' ''hello'' False 8 ''9:16'' None ''kie'' 60 =
     ([KieSubmitVideo (KieRequest ''img'' ''hello'' False ''9:16'' None),
       FalSubmitVideo (FalRequest ''img'' ''hello'' 8 ''9:16'' None False)],
      Inl (all_providers_failed ''Kie.ai failed: Kie.ai API error (500): boom''
             (Exception ''quota exhausted'')))
   \<and> submit_veo3_job clients_both_fail ''img'' ''hello'' False 8 ''9:16'' None ''kie'' 0 =
     ([FalSubmitVideo (FalRequest ''img'' ''hello'' 8 ''9:16'' None False)],
      Inl (all_providers_failed ''Kie.ai timed out after 0s'' (Exception ''quota exhausted'')))"
proof -
  have k: "kie_submit_image_to_video_job clients_both_fail
             (KieRequest ''img'' ''hello'' False ''9:16'' None) =
           \<lparr>elapsed = 1, outcome = Inl (Exception ''Kie.ai API error (500): boom'')\<rparr>"
    by (simp add: clients_both_fail_def)
  have f: "fal_submit_image_to_video_job clients_both_fail
             (FalRequest ''img'' ''hello'' 8 ''9:16'' None False) = Inl (Exception ''quota exhausted'')"
    by (simp add: clients_both_fail_def)
  have h2: "\<not> elapsed (kie_submit_image_to_video_job clients_both_fail
                      (KieRequest ''img'' ''hello'' False ''9:16'' None)) < of_int 60
         \<or> (\<exists>e. outcome (kie_submit_image_to_video_job clients_both_fail
                      (KieRequest ''img'' ''hello'' False ''9:16'' None)) = Inl e)"
    by (simp add: k)
  have w: "wait_for (kie_submit_image_to_video_job clients_both_fail
                      (KieRequest ''img'' ''hello'' False ''9:16'' None)) 60
             = Inl (Exception ''Kie.ai API error (500): boom'')"
    by (simp add: k wait_for_def)
  have p: "primary_error_text (Exception ''Kie.ai API error (500): boom'') 60
             = ''Kie.ai failed: Kie.ai API error (500): boom''"
    by (simp add: primary_error_text_def Exception_def)
  from both_providers_fail [OF refl h2 f] obtain e agg where
    e: "wait_for (kie_submit_image_to_video_job clients_both_fail
                      (KieRequest ''img'' ''hello'' False ''9:16'' None)) 60 = Inl e"
    and r1: "snd (submit_veo3_job clients_both_fail ''img'' ''hello'' False 8 ''9:16'' None
                    ''kie'' 60) = Inl agg"
    and r2: "(0::int) < 60 \<longrightarrow>
             fst (submit_veo3_job clients_both_fail ''img'' ''hello'' False 8 ''9:16'' None
                    ''kie'' 60) =
             [KieSubmitVideo (KieRequest ''img'' ''hello'' False ''9:16'' None),
              FalSubmitVideo (FalRequest ''img'' ''hello'' 8 ''9:16'' None False)]"
    and a: "agg = all_providers_failed (primary_error_text e 60) (Exception ''quota exhausted'')"
    by blast
  from e w have "e = Exception ''Kie.ai API error (500): boom''"
    by simp
  with a p have "agg = all_providers_failed ''Kie.ai failed: Kie.ai API error (500): boom''
             (Exception ''quota exhausted'')"
    by simp
  with r1 r2 have first:
    "submit_veo3_job clients_both_fail ''img'' ''hello'' False 8 ''9:16'' None ''kie'' 60 =
     ([KieSubmitVideo (KieRequest ''img'' ''hello'' False ''9:16'' None),
       FalSubmitVideo (FalRequest ''img'' ''hello'' 8 ''9:16'' None False)],
      Inl (all_providers_failed ''Kie.ai failed: Kie.ai API error (500): boom''
             (Exception ''quota exhausted'')))"
    by (simp add: prod_eq_iff)
  have h0: "\<not> elapsed (kie_submit_image_to_video_job clients_both_fail
                      (KieRequest ''img'' ''hello'' False ''9:16'' None)) < of_int 0
         \<or> (\<exists>e. outcome (kie_submit_image_to_video_job clients_both_fail
                      (KieRequest ''img'' ''hello'' False ''9:16'' None)) = Inl e)"
    by (simp add: k)
  have el: "(0::int) \<le> 0 \<and> 0 \<le> elapsed (kie_submit_image_to_video_job clients_both_fail
                      (KieRequest ''img'' ''hello'' False ''9:16'' None))"
    by (simp add: k)
  have p0: "primary_error_text asyncio_TimeoutError 0 = ''Kie.ai timed out after 0s''"
    by code_simp
  from both_providers_fail [OF refl h0 f] obtain e0 agg0 where
    s1: "snd (submit_veo3_job clients_both_fail ''img'' ''hello'' False 8 ''9:16'' None
                    ''kie'' 0) = Inl agg0"
    and s2: "(0::int) \<le> 0 \<and> 0 \<le> elapsed (kie_submit_image_to_video_job clients_both_fail
                      (KieRequest ''img'' ''hello'' False ''9:16'' None)) \<longrightarrow>
             fst (submit_veo3_job clients_both_fail ''img'' ''hello'' False 8 ''9:16'' None
                    ''kie'' 0) =
             [FalSubmitVideo (FalRequest ''img'' ''hello'' 8 ''9:16'' None False)]
             \<and> e0 = asyncio_TimeoutError"
    and a0: "agg0 = all_providers_failed (primary_error_text e0 0) (Exception ''quota exhausted'')"
    by blast
  from s2 el have tr0: "fst (submit_veo3_job clients_both_fail ''img'' ''hello'' False 8 ''9:16''
                              None ''kie'' 0) =
             [FalSubmitVideo (FalRequest ''img'' ''hello'' 8 ''9:16'' None False)]"
    and e0: "e0 = asyncio_TimeoutError"
    by blast+
  from a0 e0 p0 have "agg0 = all_providers_failed ''Kie.ai timed out after 0s''
             (Exception ''quota exhausted'')"
    by simp
  with s1 tr0 have second:
    "submit_veo3_job clients_both_fail ''img'' ''hello'' False 8 ''9:16'' None ''kie'' 0 =
     ([FalSubmitVideo (FalRequest ''img'' ''hello'' 8 ''9:16'' None False)],
      Inl (all_providers_failed ''Kie.ai timed out after 0s'' (Exception ''quota exhausted'')))"
    by (simp add: prod_eq_iff)
  from first second show ?thesis
    by simp
qed

section \<open>Properties of the polling loops\<close>

lemma snd_emit: "snd (emit evs r) = snd r"
  by (simp add: emit_def)

lemma fal_wait_continue:
  assumes "fal_turn_continues job timeout start_time c"
  shows "snd (fal_wait_for_completion job timeout poll_interval start_time (c # cs)) =
         snd (fal_wait_for_completion job timeout poll_interval start_time cs)"
  using assms
  by (auto simp: fal_turn_continues_def on_status_def snd_emit
        split: prod.splits option.splits)

lemma fal_wait_skip:
  assumes "\<forall>p \<in> set pre. fal_turn_continues job timeout start_time p"
  shows "snd (fal_wait_for_completion job timeout poll_interval start_time (pre @ rest)) =
         snd (fal_wait_for_completion job timeout poll_interval start_time rest)"
  using assms
proof (induction pre)
  case Nil
  then show ?case by simp
next
  case (Cons p pre)
  then have "fal_turn_continues job timeout start_time p"
    by simp
  then have "snd (fal_wait_for_completion job timeout poll_interval start_time (p # (pre @ rest))) =
             snd (fal_wait_for_completion job timeout poll_interval start_time (pre @ rest))"
    by (rule fal_wait_continue)
  with Cons show ?case
    by simp
qed

lemma veo3_wait_continue:
  assumes "veo3_turn_continues job prov timeout start_time c"
  shows "snd (veo3_wait_for_completion job prov timeout poll_interval start_time (c # cs)) =
         snd (veo3_wait_for_completion job prov timeout poll_interval start_time cs)"
  using assms
  by (auto simp: veo3_turn_continues_def on_status_def snd_emit
        split: prod.splits sum.splits option.splits)

lemma veo3_wait_skip:
  assumes "\<forall>p \<in> set pre. veo3_turn_continues job prov timeout start_time p"
  shows "snd (veo3_wait_for_completion job prov timeout poll_interval start_time (pre @ rest)) =
         snd (veo3_wait_for_completion job prov timeout poll_interval start_time rest)"
  using assms
proof (induction pre)
  case Nil
  then show ?case by simp
next
  case (Cons p pre)
  then have "veo3_turn_continues job prov timeout start_time p"
    by simp
  then have "snd (veo3_wait_for_completion job prov timeout poll_interval start_time
                    (p # (pre @ rest))) =
             snd (veo3_wait_for_completion job prov timeout poll_interval start_time (pre @ rest))"
    by (rule veo3_wait_continue)
  with Cons show ?case
    by simp
qed


lemma on_status_url_nonempty: "on_status prefix sd = Some (Inr url) \<Longrightarrow> url \<noteq> []"
  by (auto simp: on_status_def split: if_splits option.splits)

lemma fal_wait_url_nonempty:
  "snd (fal_wait_for_completion job timeout poll_interval start_time cs) = Some (Inr url)
     \<Longrightarrow> url \<noteq> []"
proof (induction cs)
  case Nil
  then show ?case by simp
next
  case (Cons c cs)
  then show ?case
    by (auto simp: snd_emit split: if_splits prod.splits option.splits
          dest: on_status_url_nonempty)
qed

lemma veo3_wait_url_nonempty:
  "snd (veo3_wait_for_completion job prov timeout poll_interval start_time cs) = Some (Inr url)
     \<Longrightarrow> url \<noteq> []"
proof (induction cs)
  case Nil
  then show ?case by simp
next
  case (Cons c cs)
  then show ?case
    by (auto simp: snd_emit split: if_splits prod.splits sum.splits option.splits
          dest: on_status_url_nonempty)
qed

lemma on_status_completed_without_url:
  "completed_without_url sd \<Longrightarrow>
     on_status prefix sd = Some (Inl (Exception ''Job completed but no result URL found''))"
  by (auto simp: completed_without_url_def on_status_def)

lemma classify_no_result_url:
  "classify_error (Exception ''Job completed but no result URL found'') ctx =
     [(''error_type'', VErrorType SYSTEM_ERROR),
      (''error_message'', VStr (ERROR_MESSAGES SYSTEM_ERROR)),
      (''is_refundable'', VBool True),
      (''can_retry'', VBool True),
      (''technical_details'', VStr ''Exception: Job completed but no result URL found'')]"
proof -
  have "classify_error (Exception ''Job completed but no result URL found'') ctx =
        classify_error (Exception ''Job completed but no result URL found'') None"
    by (simp add: classify_error_def)
  also have "\<dots> =
     [(''error_type'', VErrorType SYSTEM_ERROR),
      (''error_message'', VStr (ERROR_MESSAGES SYSTEM_ERROR)),
      (''is_refundable'', VBool True),
      (''can_retry'', VBool True),
      (''technical_details'', VStr ''Exception: Job completed but no result URL found'')]"
    by code_simp
  finally show ?thesis .
qed



text \<open>
  Claim C7: when a polling loop reaches a turn, within the deadline, whose status probe
  reports COMPLETED with no result URL (\<open>None\<close> or the empty string), the call raises
  \<open>Exception("Job completed but no result URL found")\<close>; \<open>classify_error\<close> maps that exception
  to SYSTEM_ERROR with \<open>is_refundable = True\<close>; and a URL returned by either loop is never
  empty.
\<close>

theorem completed_without_url_raises:
  "((\<forall>p \<in> set pre. fal_turn_continues job timeout start_time p)
      \<and> \<not> clock c - start_time > of_int timeout
      \<and> snd (try_models (fal_check_status c) job models_to_try) = Some sd
      \<and> completed_without_url sd
    \<longrightarrow> snd (fal_wait_for_completion job timeout poll_interval start_time (pre @ c # post)) =
          Some (Inl (Exception ''Job completed but no result URL found'')))
   \<and> ((\<forall>p \<in> set pre. veo3_turn_continues job prov timeout start_time p)
      \<and> \<not> clock c - start_time > of_int timeout
      \<and> snd (veo3_get_status c job prov) = Inr sd
      \<and> completed_without_url sd
    \<longrightarrow> snd (veo3_wait_for_completion job prov timeout poll_interval start_time (pre @ c # post)) =
          Some (Inl (Exception ''Job completed but no result URL found'')))
   \<and> dict_get (classify_error (Exception ''Job completed but no result URL found'') ctx)
        ''error_type'' = Some (VErrorType SYSTEM_ERROR)
   \<and> dict_get (classify_error (Exception ''Job completed but no result URL found'') ctx)
        ''is_refundable'' = Some (VBool True)
   \<and> (\<forall>url. snd (fal_wait_for_completion job timeout poll_interval start_time cs) = Some (Inr url)
          \<longrightarrow> url \<noteq> [])
   \<and> (\<forall>url. snd (veo3_wait_for_completion job prov timeout poll_interval start_time cs)
            = Some (Inr url)
          \<longrightarrow> url \<noteq> [])"
proof (intro conjI impI allI)
  assume h: "(\<forall>p \<in> set pre. fal_turn_continues job timeout start_time p)
      \<and> \<not> clock c - start_time > of_int timeout
      \<and> snd (try_models (fal_check_status c) job models_to_try) = Some sd
      \<and> completed_without_url sd"
  then have "snd (fal_wait_for_completion job timeout poll_interval start_time (pre @ c # post)) =
             snd (fal_wait_for_completion job timeout poll_interval start_time (c # post))"
    by (simp add: fal_wait_skip)
  moreover from h have "snd (fal_wait_for_completion job timeout poll_interval start_time (c # post))
      = Some (Inl (Exception ''Job completed but no result URL found''))"
    by (auto simp: on_status_completed_without_url split: prod.splits)
  ultimately show "snd (fal_wait_for_completion job timeout poll_interval start_time
                          (pre @ c # post)) =
          Some (Inl (Exception ''Job completed but no result URL found''))"
    by simp
next
  assume h: "(\<forall>p \<in> set pre. veo3_turn_continues job prov timeout start_time p)
      \<and> \<not> clock c - start_time > of_int timeout
      \<and> snd (veo3_get_status c job prov) = Inr sd
      \<and> completed_without_url sd"
  then have "snd (veo3_wait_for_completion job prov timeout poll_interval start_time
                    (pre @ c # post)) =
             snd (veo3_wait_for_completion job prov timeout poll_interval start_time (c # post))"
    by (simp add: veo3_wait_skip)
  moreover from h have "snd (veo3_wait_for_completion job prov timeout poll_interval start_time
                               (c # post))
      = Some (Inl (Exception ''Job completed but no result URL found''))"
    by (auto simp: on_status_completed_without_url split: prod.splits)
  ultimately show "snd (veo3_wait_for_completion job prov timeout poll_interval start_time
                          (pre @ c # post)) =
          Some (Inl (Exception ''Job completed but no result URL found''))"
    by simp
next
  show "dict_get (classify_error (Exception ''Job completed but no result URL found'') ctx)
        ''error_type'' = Some (VErrorType SYSTEM_ERROR)"
    by (simp add: classify_no_result_url dict_get_def)
  show "dict_get (classify_error (Exception ''Job completed but no result URL found'') ctx)
        ''is_refundable'' = Some (VBool True)"
    by (simp add: classify_no_result_url dict_get_def)
next
  fix url
  assume "snd (fal_wait_for_completion job timeout poll_interval start_time cs) = Some (Inr url)"
  then show "url \<noteq> []"
    by (rule fal_wait_url_nonempty)
next
  fix url
  assume "snd (veo3_wait_for_completion job prov timeout poll_interval start_time cs)
            = Some (Inr url)"
  then show "url \<noteq> []"
    by (rule veo3_wait_url_nonempty)
qed

theorem completed_without_url_raises_witness:
  "snd (fal_wait_for_completion ''req-1'' 120 5 1000
          [turn_all_probes_fail 1000, turn_with_status 1005 completed_no_url]) =
     Some (Inl (Exception ''Job completed but no result URL found''))
   \<and> snd (veo3_wait_for_completion ''task-9'' ''kie'' 600 30 50
          [turn_with_status 50 processing, turn_with_status 80 completed_no_url]) =
     Some (Inl (Exception ''Job completed but no result URL found''))
   \<and> dict_get (classify_error (Exception ''Job completed but no result URL found'') (Some ''stage3''))
        ''error_type'' = Some (VErrorType SYSTEM_ERROR)"
proof -
  have f0: "fal_turn_continues ''req-1'' 120 1000 (turn_all_probes_fail 1000)"
    by (simp add: fal_turn_continues_def turn_all_probes_fail_def models_to_try_def)
  have v0: "veo3_turn_continues ''task-9'' ''kie'' 600 50 (turn_with_status 50 processing)"
    by (simp add: veo3_turn_continues_def veo3_get_status_def kie_get_status_def
          turn_with_status_def processing_def)
  have cw: "completed_without_url completed_no_url"
    by (simp add: completed_without_url_def completed_no_url_def)
  have tf: "snd (try_models (fal_check_status (turn_with_status 1005 completed_no_url)) ''req-1''
                   models_to_try) = Some completed_no_url"
    by (simp add: turn_with_status_def models_to_try_def)
  have tv: "snd (veo3_get_status (turn_with_status 80 completed_no_url) ''task-9'' ''kie'')
              = Inr completed_no_url"
    by (simp add: veo3_get_status_def kie_get_status_def turn_with_status_def)
  have cf: "\<not> clock (turn_with_status 1005 completed_no_url) - 1000 > of_int 120"
    by (simp add: turn_with_status_def)
  have cv: "\<not> clock (turn_with_status 80 completed_no_url) - 50 > of_int 600"
    by (simp add: turn_with_status_def)
  note t = completed_without_url_raises
      [where pre = "[turn_all_probes_fail 1000]" and job = "''req-1''" and timeout = 120
         and start_time = 1000 and c = "turn_with_status 1005 completed_no_url"
         and sd = completed_no_url and poll_interval = 5 and post = "[]"
         and ctx = "Some ''stage3''"]
  note u = completed_without_url_raises
      [where pre = "[turn_with_status 50 processing]" and job = "''task-9''" and prov = "''kie''"
         and timeout = 600 and start_time = 50 and c = "turn_with_status 80 completed_no_url"
         and sd = completed_no_url and poll_interval = 30 and post = "[]"]
  have a: "snd (fal_wait_for_completion ''req-1'' 120 5 1000
          ([turn_all_probes_fail 1000] @ turn_with_status 1005 completed_no_url # [])) =
     Some (Inl (Exception ''Job completed but no result URL found''))"
    using t f0 cw tf cf by simp
  have b: "snd (veo3_wait_for_completion ''task-9'' ''kie'' 600 30 50
          ([turn_with_status 50 processing] @ turn_with_status 80 completed_no_url # [])) =
     Some (Inl (Exception ''Job completed but no result URL found''))"
    using u v0 cw tv cv by simp
  have c: "dict_get (classify_error (Exception ''Job completed but no result URL found'')
             (Some ''stage3'')) ''error_type'' = Some (VErrorType SYSTEM_ERROR)"
    using t by simp
  from a b c show ?thesis
    by simp
qed

section \<open>Properties of the orchestrator\<close>

subsection \<open>Sequencing\<close>

lemma fst_and_then:
  "fst (and_then m f) = (case snd m of Inl ex \<Rightarrow> fst m | Inr x \<Rightarrow> fst m @ fst (f x))"
  by (simp add: and_then_def split: prod.splits sum.splits)

lemma snd_and_then:
  "snd (and_then m f) = (case snd m of Inl ex \<Rightarrow> Inl ex | Inr x \<Rightarrow> snd (f x))"
  by (simp add: and_then_def split: prod.splits sum.splits)

lemma fst_send_webhook [simp]:
  "fst (send_webhook self payload) = [SendWebhook payload (deliver self payload)]"
  by (simp add: send_webhook_def)

lemma snd_send_webhook [simp]: "snd (send_webhook self payload) = Inr ()"
  by (simp add: send_webhook_def)

lemma classify_error_context: "classify_error ex ctx = classify_error ex None"
  by (simp add: classify_error_def)

lemma classify_error_keys:
  "\<exists>t m r c d. classify_error ex None =
      [(''error_type'', t), (''error_message'', m), (''is_refundable'', r),
       (''can_retry'', c), (''technical_details'', d)]"
  by (simp add: classify_error_cases)

lemma send_failure_webhook_eq:
  assumes "classify_error ex None =
      [(''error_type'', t), (''error_message'', m), (''is_refundable'', r),
       (''can_retry'', c), (''technical_details'', d)]"
  shows "send_failure_webhook self gid ex stage field =
     send_webhook self
       ((case field of
           None \<Rightarrow> id
         | Some f \<Rightarrow> if f = [] then id else AList.update f d)
          ((case stage of
              None \<Rightarrow> id
            | Some n \<Rightarrow>
                if n = 0 then id
                else AList.update ''progress'' (VInt 0) \<circ> AList.update ''current_stage'' (VInt n))
             [(''generation_id'', VStr gid), (''status'', VStr ''FAILED''),
              (''error_type'', t), (''error_message'', m), (''is_refundable'', r),
              (''can_retry'', c)]))"
proof -
  have ctx: "\<And>ctx. classify_error ex ctx =
      [(''error_type'', t), (''error_message'', m), (''is_refundable'', r),
       (''can_retry'', c), (''technical_details'', d)]"
    using assms classify_error_context by metis
  show ?thesis
    by (simp add: send_failure_webhook_def ctx subscript_def and_then_def returns_def
             split: option.splits)
qed

subsection \<open>Stopping at a failing stage call\<close>

lemma first_stage_failure_append:
  "first_stage_failure (xs @ ys) =
     (case first_stage_failure xs of
        Some (ex, rest) \<Rightarrow> Some (ex, rest @ ys)
      | None \<Rightarrow> first_stage_failure ys)"
  by (induction xs) (simp_all split: option.splits)

lemma first_stage_failure_None:
  "first_stage_failure evs = None \<longleftrightarrow> (\<forall>ev \<in> set evs. stage_raised ev = None)"
  by (induction evs) (auto split: option.splits)

lemma first_stage_failure_split:
  assumes "evs = pre @ ev # post" and "stage_raised ev = Some ex"
      and "first_stage_failure evs = Some (ex', rest)" and "rest = []"
  shows "post = [] \<and> ex' = ex \<and> (\<forall>ev' \<in> set pre. stage_raised ev' = None)"
  using assms
proof (induction pre arbitrary: evs)
  case Nil
  then show ?case by simp
next
  case (Cons a pre)
  show ?case
  proof (cases "stage_raised a")
    case None
    with Cons.prems have "first_stage_failure (pre @ ev # post) = Some (ex', rest)" by simp
    with Cons.IH [OF refl Cons.prems(2) _ Cons.prems(4)] None show ?thesis by simp
  next
    case (Some y)
    with Cons.prems show ?thesis by simp
  qed
qed

lemma stops_at_failure_split:
  assumes "stops_at_failure m" and "fst m = pre @ ev # post" and "stage_raised ev = Some ex"
  shows "post = [] \<and> snd m = Inl ex \<and> (\<forall>ev' \<in> set pre. stage_raised ev' = None)"
proof -
  from assms(2,3) have "first_stage_failure (fst m) \<noteq> None"
    by (auto simp: first_stage_failure_None)
  then obtain ex' rest where f: "first_stage_failure (fst m) = Some (ex', rest)" by auto
  with assms(1) have r: "rest = []" and s: "snd m = Inl ex'"
    by (simp_all add: stops_at_failure_def)
  from first_stage_failure_split [OF assms(2,3) f r] s show ?thesis by simp
qed

lemma stops_at_failure_quiet:
  "first_stage_failure (fst m) = None \<Longrightarrow> stops_at_failure m"
  by (simp add: stops_at_failure_def)

lemma stops_at_failure_and_then:
  assumes "stops_at_failure m" and "\<And>x. snd m = Inr x \<Longrightarrow> stops_at_failure (f x)"
  shows "stops_at_failure (and_then m f)"
proof (cases "snd m")
  case (Inl ex)
  with assms(1) show ?thesis
    by (auto simp: stops_at_failure_def fst_and_then snd_and_then split: option.splits)
next
  case (Inr x)
  with assms(1) have q: "first_stage_failure (fst m) = None"
    by (auto simp: stops_at_failure_def split: option.splits)
  from assms(2) [OF Inr] Inr q show ?thesis
    by (auto simp: stops_at_failure_def fst_and_then snd_and_then first_stage_failure_append
             split: option.splits)
qed

lemma stops_at_failure_returns [simp]: "stops_at_failure (returns x)"
  by (simp add: stops_at_failure_def returns_def)

lemma stops_at_failure_raises [simp]: "stops_at_failure (raises ex)"
  by (simp add: stops_at_failure_def raises_def)

lemma stops_at_failure_pure_call [simp]: "stops_at_failure (pure_call res)"
  by (simp add: stops_at_failure_def pure_call_def)

lemma stops_at_failure_send_webhook [simp]: "stops_at_failure (send_webhook self payload)"
  by (simp add: stops_at_failure_def)

lemma stops_at_failure_await_stage:
  assumes "\<And>ex. stage_raised (ev (Inl ex)) = Some ex"
      and "\<And>x. stage_raised (ev (Inr x)) = None"
  shows "stops_at_failure (await ev res)"
  using assms by (cases res) (simp_all add: stops_at_failure_def await_def)

lemma stops_at_failure_await [simp]:
  "stops_at_failure (await (SubmitTextToImageJob j) res1)"
  "stops_at_failure (await (SubmitImageEditJob e) res2)"
  "stops_at_failure (await (FalWaitForCompletion jid t) res3)"
  "stops_at_failure (await (SubmitVeo3Job u p calls) res4)"
  "stops_at_failure (await (Veo3WaitForCompletion jid prov t i) res5)"
  "stops_at_failure (await (S3Upload a u us g) res6)"
  by (simp_all add: stops_at_failure_await_stage)

lemma stops_at_failure_submit_video [simp]:
  "stops_at_failure (submit_video self u p mode d a)"
  by (simp add: submit_video_def split: prod.splits)

lemma quiet_analyze_product [simp]:
  "first_stage_failure (fst (analyze_product orp u)) = None"
  by (simp add: analyze_product_def caught_def fst_and_then await_def returns_def
           split: sum.splits)

lemma quiet_enhance_with:
  assumes "\<And>orp info. first_stage_failure (fst (enhancement orp info)) = None"
  shows "first_stage_failure (fst (enhance_with self product_info enhancement kept)) = None"
  using assms by (simp add: enhance_with_def caught_def returns_def split: option.splits)

lemma quiet_enhance_person [simp]:
  "first_stage_failure (fst (enhance_person self u p)) = None"
  by (simp add: enhance_person_def caught_def fst_and_then snd_and_then await_def returns_def
                first_stage_failure_append
           split: option.splits sum.splits)

lemma quiet_analyze_and_enhance_person [simp]:
  "first_stage_failure (fst (analyze_and_enhance_person self u p)) = None"
  by (simp add: analyze_and_enhance_person_def caught_def fst_and_then snd_and_then await_def
                returns_def first_stage_failure_append
           split: option.splits sum.splits)

lemma stops_at_failure_person_only:
  "stops_at_failure
     (generate_person_only_try self generation_id user_id stage1_mode person_prompt person_fields)"
  unfolding generate_person_only_try_def
  by (intro stops_at_failure_and_then) (simp_all split: option.splits)

lemma stops_at_failure_composite_only:
  "stops_at_failure
     (generate_composite_only_try self generation_id user_id person_image_url product_image_url
        composite_prompt)"
  unfolding generate_composite_only_try_def
  by (intro stops_at_failure_and_then)
     (simp_all add: stops_at_failure_quiet split: option.splits)

lemma stops_at_failure_video_only:
  "stops_at_failure
     (generate_video_only_try self generation_id user_id composite_image_url video_prompt
        veo3_mode duration aspect_ratio product_image_url)"
  unfolding generate_video_only_try_def
  by (intro stops_at_failure_and_then; (simp split: prod.splits)?)
     (auto intro!: stops_at_failure_and_then simp: stops_at_failure_quiet
           split: option.splits prod.splits)

lemma quiet_enhance_composite [simp]:
  "first_stage_failure
     (fst (enhance_with self product_info
             (\<lambda>orp info. await (EnhanceCompositePrompt pinfo info text) (res orp info)) kept)) = None"
  by (rule quiet_enhance_with) (simp add: await_def)

lemma quiet_enhance_video [simp]:
  "first_stage_failure
     (fst (enhance_with self product_info
             (\<lambda>orp info. await (EnhanceVideoPrompt cinfo text (ptype info)) (res orp info)) kept)) = None"
  by (rule quiet_enhance_with) (simp add: await_def)

lemma stops_at_failure_ugc_stage1:
  "stops_at_failure
     (generate_ugc_video_stage1 self generation_id user_id stage1_mode product_image_url
        person_prompt person_fields)"
  unfolding generate_ugc_video_stage1_def
  by (intro stops_at_failure_and_then)
     (auto intro!: stops_at_failure_and_then simp: stops_at_failure_quiet
           split: option.splits prod.splits)

lemma stops_at_failure_ugc_stage2:
  "stops_at_failure
     (generate_ugc_video_stage2 self generation_id user_id product_image_url composite_prompt
        product_info person_s3)"
  unfolding generate_ugc_video_stage2_def
  by (intro stops_at_failure_and_then)
     (auto intro!: stops_at_failure_and_then simp: stops_at_failure_quiet
           split: option.splits prod.splits)

lemma stops_at_failure_ugc_stage3:
  "stops_at_failure
     (generate_ugc_video_stage3 self generation_id user_id video_prompt veo3_mode duration
        aspect_ratio product_info person_s3 composite_s3 start_time)"
  unfolding generate_ugc_video_stage3_def
  by (intro stops_at_failure_and_then)
     (auto intro!: stops_at_failure_and_then simp: stops_at_failure_quiet
           split: option.splits prod.splits)

lemma stops_at_failure_ugc:
  "stops_at_failure
     (generate_ugc_video_try self generation_id user_id stage1_mode product_image_url
        video_prompt person_prompt person_fields composite_prompt veo3_mode duration
        aspect_ratio)"
  unfolding generate_ugc_video_try_def
  by (auto intro!: stops_at_failure_and_then stops_at_failure_ugc_stage1
                   stops_at_failure_ugc_stage2 stops_at_failure_ugc_stage3
           split: prod.splits)

lemma stops_at_failure_pc_stage1:
  "stops_at_failure
     (generate_person_and_composite_stage1 self generation_id user_id stage1_mode person_prompt
        person_fields product_image_url)"
  unfolding generate_person_and_composite_stage1_def
  by (intro stops_at_failure_and_then)
     (auto intro!: stops_at_failure_and_then simp: stops_at_failure_quiet
           split: option.splits prod.splits)

lemma stops_at_failure_pc_stage2:
  "stops_at_failure
     (generate_person_and_composite_stage2 self generation_id user_id product_image_url
        composite_prompt product_info person_s3 start_time)"
  unfolding generate_person_and_composite_stage2_def
  by (intro stops_at_failure_and_then)
     (auto intro!: stops_at_failure_and_then simp: stops_at_failure_quiet
           split: option.splits prod.splits)

lemma stops_at_failure_pc:
  "stops_at_failure
     (generate_person_and_composite_try self generation_id user_id stage1_mode person_prompt
        person_fields product_image_url composite_prompt)"
  unfolding generate_person_and_composite_try_def
  by (auto intro!: stops_at_failure_and_then stops_at_failure_pc_stage1
                   stops_at_failure_pc_stage2
           split: prod.splits)

subsection \<open>Properties of every event of a run\<close>

lemma all_events_and_then:
  assumes "all_events P m" and "\<And>x. snd m = Inr x \<Longrightarrow> all_events P (f x)"
  shows "all_events P (and_then m f)"
  using assms by (cases "snd m") (simp_all add: all_events_def fst_and_then)

lemma all_events_simple [simp]:
  "all_events P (returns x)"
  "all_events P (raises ex)"
  "all_events P (pure_call res)"
  by (simp_all add: all_events_def returns_def raises_def pure_call_def)

lemma all_events_await: "P (ev res) \<Longrightarrow> all_events P (await ev res)"
  by (simp add: all_events_def await_def)

lemma all_events_caught: "all_events P m \<Longrightarrow> all_events P (caught m kept)"
  by (simp add: all_events_def caught_def)

lemma all_events_send_webhook:
  "(\<And>d. P (SendWebhook payload d)) \<Longrightarrow> all_events P (send_webhook self payload)"
  by (simp add: all_events_def)

lemma all_events_submit_video:
  "(\<And>calls res. P (SubmitVeo3Job u p calls res)) \<Longrightarrow> all_events P (submit_video self u p mode d a)"
  by (simp add: submit_video_def all_events_await split: prod.splits)

lemma all_events_analyze_product:
  "(\<And>res. P (AnalyzeProductImage u res)) \<Longrightarrow> all_events P (analyze_product orp u)"
  unfolding analyze_product_def
  by (intro all_events_caught all_events_and_then all_events_await) simp_all

lemma all_events_enhance_with:
  "(\<And>orp info. all_events P (enhancement orp info))
   \<Longrightarrow> all_events P (enhance_with self product_info enhancement kept)"
  by (simp add: enhance_with_def all_events_caught split: option.splits)

lemma all_events_enhance_person:
  assumes "\<And>res. P (AnalyzeProductImage u res)"
      and "\<And>info res. P (EnhancePersonPrompt (Some p) info res)"
  shows "all_events P (enhance_person self u p)"
  unfolding enhance_person_def using assms
  by (auto intro!: all_events_caught all_events_and_then all_events_await split: option.splits)

lemma all_events_analyze_and_enhance_person:
  assumes "\<And>res. P (AnalyzeProductImage u res)"
      and "\<And>info res. P (EnhancePersonPrompt p info res)"
  shows "all_events P (analyze_and_enhance_person self u p)"
  unfolding analyze_and_enhance_person_def using assms
  by (auto intro!: all_events_caught all_events_and_then all_events_await split: option.splits)

lemmas all_events_intros =
  all_events_and_then all_events_await all_events_caught all_events_send_webhook
  all_events_submit_video all_events_analyze_product all_events_enhance_with
  all_events_enhance_person all_events_analyze_and_enhance_person


subsection \<open>No failure webhook inside a \<open>try\<close> block\<close>

lemma no_failure_webhook_person_only:
  "all_events (\<lambda>ev. \<not> is_failure_webhook ev)
     (generate_person_only_try self generation_id user_id stage1_mode person_prompt person_fields)"
  unfolding generate_person_only_try_def
  by ((intro all_events_intros allI impI conjI
       | simp add: dict_get_def split: option.splits prod.splits)+)

lemma no_failure_webhook_composite_only:
  "all_events (\<lambda>ev. \<not> is_failure_webhook ev)
     (generate_composite_only_try self generation_id user_id person_image_url product_image_url
        composite_prompt)"
  unfolding generate_composite_only_try_def
  by ((intro all_events_intros allI impI conjI
       | simp add: dict_get_def split: option.splits prod.splits)+)

lemma no_failure_webhook_video_only:
  "all_events (\<lambda>ev. \<not> is_failure_webhook ev)
     (generate_video_only_try self generation_id user_id composite_image_url video_prompt
        veo3_mode duration aspect_ratio product_image_url)"
  unfolding generate_video_only_try_def
  by ((intro all_events_intros allI impI conjI
       | simp add: dict_get_def split: option.splits prod.splits)+)

lemma no_failure_webhook_ugc_stage1:
  "all_events (\<lambda>ev. \<not> is_failure_webhook ev)
     (generate_ugc_video_stage1 self generation_id user_id stage1_mode product_image_url
        person_prompt person_fields)"
  unfolding generate_ugc_video_stage1_def
  by ((intro all_events_intros allI impI conjI
       | simp add: dict_get_def split: option.splits prod.splits)+)

lemma no_failure_webhook_ugc_stage2:
  "all_events (\<lambda>ev. \<not> is_failure_webhook ev)
     (generate_ugc_video_stage2 self generation_id user_id product_image_url composite_prompt
        product_info person_s3)"
  unfolding generate_ugc_video_stage2_def
  by ((intro all_events_intros allI impI conjI
       | simp add: dict_get_def split: option.splits prod.splits)+)

lemma no_failure_webhook_ugc_stage3:
  "all_events (\<lambda>ev. \<not> is_failure_webhook ev)
     (generate_ugc_video_stage3 self generation_id user_id video_prompt veo3_mode duration
        aspect_ratio product_info person_s3 composite_s3 start_time)"
  unfolding generate_ugc_video_stage3_def
  by ((intro all_events_intros allI impI conjI
       | simp add: dict_get_def split: option.splits prod.splits)+)

lemma no_failure_webhook_ugc:
  "all_events (\<lambda>ev. \<not> is_failure_webhook ev)
     (generate_ugc_video_try self generation_id user_id stage1_mode product_image_url
        video_prompt person_prompt person_fields composite_prompt veo3_mode duration
        aspect_ratio)"
  unfolding generate_ugc_video_try_def
  by (intro all_events_and_then no_failure_webhook_ugc_stage1)
     (simp add: no_failure_webhook_ugc_stage2 no_failure_webhook_ugc_stage3 all_events_and_then
           split: prod.splits)

lemma no_failure_webhook_pc_stage1:
  "all_events (\<lambda>ev. \<not> is_failure_webhook ev)
     (generate_person_and_composite_stage1 self generation_id user_id stage1_mode person_prompt
        person_fields product_image_url)"
  unfolding generate_person_and_composite_stage1_def
  by ((intro all_events_intros allI impI conjI
       | simp add: dict_get_def split: option.splits prod.splits)+)

lemma no_failure_webhook_pc_stage2:
  "all_events (\<lambda>ev. \<not> is_failure_webhook ev)
     (generate_person_and_composite_stage2 self generation_id user_id product_image_url
        composite_prompt product_info person_s3 start_time)"
  unfolding generate_person_and_composite_stage2_def
  by ((intro all_events_intros allI impI conjI
       | simp add: dict_get_def split: option.splits prod.splits)+)

lemma no_failure_webhook_pc:
  "all_events (\<lambda>ev. \<not> is_failure_webhook ev)
     (generate_person_and_composite_try self generation_id user_id stage1_mode person_prompt
        person_fields product_image_url composite_prompt)"
  unfolding generate_person_and_composite_try_def
  by (intro all_events_and_then no_failure_webhook_pc_stage1)
     (simp add: no_failure_webhook_pc_stage2 split: prod.splits)

subsection \<open>The failure webhook\<close>

lemma send_failure_webhook_staged:
  assumes n: "n \<noteq> 0" and f: "f \<noteq> []"
      and fresh: "f \<notin> {''generation_id'', ''status'', ''error_type'', ''error_message'',
                         ''is_refundable'', ''can_retry'', ''current_stage'', ''progress''}"
  shows "\<exists>payload.
           send_failure_webhook self gid ex (Some n) (Some f) = send_webhook self payload
         \<and> dict_get payload ''generation_id'' = Some (VStr gid)
         \<and> dict_get payload ''status'' = Some (VStr ''FAILED'')
         \<and> dict_get payload ''error_type'' = dict_get (classify_error ex None) ''error_type''
         \<and> dict_get payload ''error_message'' = dict_get (classify_error ex None) ''error_message''
         \<and> dict_get payload ''is_refundable'' = dict_get (classify_error ex None) ''is_refundable''
         \<and> dict_get payload ''can_retry'' = dict_get (classify_error ex None) ''can_retry''
         \<and> dict_get payload ''current_stage'' = Some (VInt n)
         \<and> dict_get payload ''progress'' = Some (VInt 0)
         \<and> dict_get payload f = dict_get (classify_error ex None) ''technical_details''"
proof -
  obtain t m r c d where keys: "classify_error ex None =
      [(''error_type'', t), (''error_message'', m), (''is_refundable'', r),
       (''can_retry'', c), (''technical_details'', d)]"
    using classify_error_keys by blast
  let ?payload =
    "AList.update f d
       (AList.update ''progress'' (VInt 0)
          (AList.update ''current_stage'' (VInt n)
             [(''generation_id'', VStr gid), (''status'', VStr ''FAILED''),
              (''error_type'', t), (''error_message'', m), (''is_refundable'', r),
              (''can_retry'', c)]))"
  have eq: "send_failure_webhook self gid ex (Some n) (Some f) = send_webhook self ?payload"
    using n f by (simp add: send_failure_webhook_eq [OF keys])
  from fresh have fr: "f \<noteq> ''generation_id''" "f \<noteq> ''status''" "f \<noteq> ''error_type''"
    "f \<noteq> ''error_message''" "f \<noteq> ''is_refundable''" "f \<noteq> ''can_retry''"
    "f \<noteq> ''current_stage''" "f \<noteq> ''progress''"
    by simp_all
  have "dict_get ?payload ''generation_id'' = Some (VStr gid)"
    using fr by (simp add: dict_get_def)
  moreover have "dict_get ?payload ''status'' = Some (VStr ''FAILED'')"
    using fr by (simp add: dict_get_def)
  moreover have "dict_get ?payload ''error_type'' = dict_get (classify_error ex None) ''error_type''"
    using fr by (simp add: dict_get_def keys)
  moreover have "dict_get ?payload ''error_message'' = dict_get (classify_error ex None) ''error_message''"
    using fr by (simp add: dict_get_def keys)
  moreover have "dict_get ?payload ''is_refundable'' = dict_get (classify_error ex None) ''is_refundable''"
    using fr by (simp add: dict_get_def keys)
  moreover have "dict_get ?payload ''can_retry'' = dict_get (classify_error ex None) ''can_retry''"
    using fr by (simp add: dict_get_def keys)
  moreover have "dict_get ?payload ''current_stage'' = Some (VInt n)"
    using fr by (simp add: dict_get_def)
  moreover have "dict_get ?payload ''progress'' = Some (VInt 0)"
    using fr by (simp add: dict_get_def)
  moreover have "dict_get ?payload f = dict_get (classify_error ex None) ''technical_details''"
    by (simp add: dict_get_def update_conv' keys)
  ultimately show ?thesis using eq by blast
qed

lemma send_failure_webhook_unstaged:
  "\<exists>payload.
      send_failure_webhook self gid ex None None = send_webhook self payload
    \<and> dict_get payload ''generation_id'' = Some (VStr gid)
    \<and> dict_get payload ''status'' = Some (VStr ''FAILED'')
    \<and> dict_get payload ''error_type'' = dict_get (classify_error ex None) ''error_type''
    \<and> dict_get payload ''error_message'' = dict_get (classify_error ex None) ''error_message''
    \<and> dict_get payload ''is_refundable'' = dict_get (classify_error ex None) ''is_refundable''
    \<and> dict_get payload ''can_retry'' = dict_get (classify_error ex None) ''can_retry''
    \<and> dict_get payload ''current_stage'' = None
    \<and> dict_get payload ''progress'' = None
    \<and> dict_get payload ''stage'' = None"
proof -
  obtain t m r c d where keys: "classify_error ex None =
      [(''error_type'', t), (''error_message'', m), (''is_refundable'', r),
       (''can_retry'', c), (''technical_details'', d)]"
    using classify_error_keys by blast
  let ?payload =
    "[(''generation_id'', VStr gid), (''status'', VStr ''FAILED''),
      (''error_type'', t), (''error_message'', m), (''is_refundable'', r),
      (''can_retry'', c)]"
  have eq: "send_failure_webhook self gid ex None None = send_webhook self ?payload"
    by (simp add: send_failure_webhook_eq [OF keys])
  have "dict_get ?payload ''generation_id'' = Some (VStr gid)"
    by (simp add: dict_get_def)
  moreover have "dict_get ?payload ''status'' = Some (VStr ''FAILED'')"
    by (simp add: dict_get_def)
  moreover have "dict_get ?payload ''error_type'' = dict_get (classify_error ex None) ''error_type''"
    by (simp add: dict_get_def keys)
  moreover have "dict_get ?payload ''error_message'' = dict_get (classify_error ex None) ''error_message''"
    by (simp add: dict_get_def keys)
  moreover have "dict_get ?payload ''is_refundable'' = dict_get (classify_error ex None) ''is_refundable''"
    by (simp add: dict_get_def keys)
  moreover have "dict_get ?payload ''can_retry'' = dict_get (classify_error ex None) ''can_retry''"
    by (simp add: dict_get_def keys)
  moreover have "dict_get ?payload ''current_stage'' = None"
    by (simp add: dict_get_def)
  moreover have "dict_get ?payload ''progress'' = None"
    by (simp add: dict_get_def)
  moreover have "dict_get ?payload ''stage'' = None"
    by (simp add: dict_get_def)
  ultimately show ?thesis using eq by blast
qed

lemma on_exception_Inr:
  "snd body = Inr x \<Longrightarrow> on_exception body handler = body"
  by (cases body) (simp add: on_exception_def)

lemma on_exception_Inl:
  assumes "snd body = Inl e0" and "snd (handler e0) = Inr u"
  shows "on_exception body handler = (fst body @ fst (handler e0), Inl e0)"
  using assms by (cases body; cases "handler e0") (simp add: on_exception_def)

lemma snoc_eq_split:
  assumes "xs @ [h] = pre @ ev # post" and "h \<noteq> ev"
  shows "\<exists>post'. xs = pre @ ev # post' \<and> post = post' @ [h]"
proof (cases post rule: rev_cases)
  case Nil
  with assms(1) have "xs @ [h] = pre @ [ev]" by simp
  then have "h = ev" by simp
  with assms(2) show ?thesis by simp
next
  case (snoc post' l)
  with assms(1) have "xs @ [h] = (pre @ ev # post') @ [l]" by simp
  then have "xs = pre @ ev # post' \<and> h = l" by (simp only: append1_eq_conv)
  with snoc show ?thesis by simp
qed

lemma on_exception_failure:
  assumes body: "stops_at_failure body"
      and quiet: "all_events (\<lambda>ev. \<not> is_failure_webhook ev) body"
      and handler: "\<And>exc. \<exists>payload. handler exc = send_webhook self payload"
      and split: "fst (on_exception body handler) = pre @ ev # post"
      and raised: "stage_raised ev = Some ex"
  shows "snd (on_exception body handler) = Inl ex
       \<and> post = fst (handler ex)
       \<and> fst body = pre @ [ev]
       \<and> (\<forall>ev' \<in> set pre. stage_raised ev' = None \<and> \<not> is_failure_webhook ev')"
proof (cases "snd body")
  case (Inr x)
  from split have "fst body = pre @ ev # post"
    by (simp only: on_exception_Inr [OF Inr])
  from stops_at_failure_split [OF body this raised] Inr show ?thesis by simp
next
  case (Inl e0)
  obtain payload where h: "handler e0 = send_webhook self payload"
    using handler by blast
  then have hs: "snd (handler e0) = Inr ()" by simp
  note run = on_exception_Inl [of body e0 handler "()", OF Inl hs]
  from split have eq: "fst body @ fst (handler e0) = pre @ ev # post"
    by (simp only: run fst_conv)
  have hk: "fst (handler e0) = [SendWebhook payload (deliver self payload)]"
    by (simp add: h)
  from raised have "SendWebhook payload (deliver self payload) \<noteq> ev" by auto
  from snoc_eq_split [OF eq [unfolded hk] this] hk
  obtain post' where b: "fst body = pre @ ev # post'" and p: "post = post' @ fst (handler e0)"
    by auto
  from stops_at_failure_split [OF body b raised]
  have p0: "post' = []" and s: "snd body = Inl ex"
    and pq: "\<forall>ev' \<in> set pre. stage_raised ev' = None"
    by simp_all
  from s Inl have e0: "e0 = ex" by simp
  from quiet b have nf: "\<forall>ev' \<in> set pre. \<not> is_failure_webhook ev'"
    by (simp add: all_events_def list_all_iff)
  have "snd (on_exception body handler) = Inl ex"
    by (simp only: run snd_conv e0)
  moreover from p p0 e0 have "post = fst (handler ex)" by simp
  moreover from b p0 have "fst body = pre @ [ev]" by simp
  ultimately show ?thesis using pq nf by simp
qed

lemma entry_point_failure:
  assumes body: "stops_at_failure body"
      and quiet: "all_events (\<lambda>ev. \<not> is_failure_webhook ev) body"
      and stage: "(stage, field) \<in>
             {(Some 1, Some ''stage1_error''), (Some 2, Some ''stage2_error''),
              (Some 3, Some ''stage3_error''), (None, None)}"
      and run: "run = on_exception body (\<lambda>exc. send_failure_webhook self gid exc stage field)"
      and split: "fst run = pre @ ev # post"
      and raised: "stage_raised ev = Some ex"
  shows "snd run = Inl ex
       \<and> (\<forall>ev' \<in> set pre. stage_raised ev' = None \<and> \<not> is_failure_webhook ev')
       \<and> (\<exists>payload.
             post = [SendWebhook payload (deliver self payload)]
           \<and> filter is_failure_webhook (fst run) = [SendWebhook payload (deliver self payload)]
           \<and> dict_get payload ''generation_id'' = Some (VStr gid)
           \<and> dict_get payload ''status'' = Some (VStr ''FAILED'')
           \<and> dict_get payload ''error_type'' = dict_get (classify_error ex None) ''error_type''
           \<and> dict_get payload ''error_message'' = dict_get (classify_error ex None) ''error_message''
           \<and> dict_get payload ''is_refundable'' = dict_get (classify_error ex None) ''is_refundable''
           \<and> dict_get payload ''can_retry'' = dict_get (classify_error ex None) ''can_retry''
           \<and> dict_get payload ''current_stage'' = map_option VInt stage
           \<and> dict_get payload ''progress'' = map_option (\<lambda>n. VInt 0) stage
           \<and> (\<forall>f. field = Some f \<longrightarrow>
                  dict_get payload f = dict_get (classify_error ex None) ''technical_details''))"
proof -
  have pl: "\<And>exc. \<exists>payload.
           send_failure_webhook self gid exc stage field = send_webhook self payload
         \<and> dict_get payload ''generation_id'' = Some (VStr gid)
         \<and> dict_get payload ''status'' = Some (VStr ''FAILED'')
         \<and> dict_get payload ''error_type'' = dict_get (classify_error exc None) ''error_type''
         \<and> dict_get payload ''error_message'' = dict_get (classify_error exc None) ''error_message''
         \<and> dict_get payload ''is_refundable'' = dict_get (classify_error exc None) ''is_refundable''
         \<and> dict_get payload ''can_retry'' = dict_get (classify_error exc None) ''can_retry''
         \<and> dict_get payload ''current_stage'' = map_option VInt stage
         \<and> dict_get payload ''progress'' = map_option (\<lambda>n. VInt 0) stage
         \<and> (\<forall>f. field = Some f \<longrightarrow>
                dict_get payload f = dict_get (classify_error exc None) ''technical_details'')"
  proof -
    fix exc
    from stage consider
        "stage = Some 1" "field = Some ''stage1_error''"
      | "stage = Some 2" "field = Some ''stage2_error''"
      | "stage = Some 3" "field = Some ''stage3_error''"
      | "stage = None" "field = None"
      by blast
    then show "?thesis exc"
    proof cases
      case 1
      from send_failure_webhook_staged [of 1 "''stage1_error''" self gid exc]
      show ?thesis unfolding 1 by simp
    next
      case 2
      from send_failure_webhook_staged [of 2 "''stage2_error''" self gid exc]
      show ?thesis unfolding 2 by simp
    next
      case 3
      from send_failure_webhook_staged [of 3 "''stage3_error''" self gid exc]
      show ?thesis unfolding 3 by simp
    next
      case 4
      from send_failure_webhook_unstaged [of self gid exc]
      show ?thesis unfolding 4 by auto
    qed
  qed
  have h: "\<And>exc. \<exists>payload. (\<lambda>exc. send_failure_webhook self gid exc stage field) exc
                             = send_webhook self payload"
    using pl by blast
  from on_exception_failure [OF body quiet h split [unfolded run] raised]
  have res: "snd run = Inl ex"
    and post: "post = fst (send_failure_webhook self gid ex stage field)"
    and pre: "\<forall>ev' \<in> set pre. stage_raised ev' = None \<and> \<not> is_failure_webhook ev'"
    unfolding run by simp_all
  from pl [of ex] obtain payload where
        eq: "send_failure_webhook self gid ex stage field = send_webhook self payload"
    and st: "dict_get payload ''status'' = Some (VStr ''FAILED'')"
    and facts: "dict_get payload ''generation_id'' = Some (VStr gid)"
      "dict_get payload ''error_type'' = dict_get (classify_error ex None) ''error_type''"
      "dict_get payload ''error_message'' = dict_get (classify_error ex None) ''error_message''"
      "dict_get payload ''is_refundable'' = dict_get (classify_error ex None) ''is_refundable''"
      "dict_get payload ''can_retry'' = dict_get (classify_error ex None) ''can_retry''"
      "dict_get payload ''current_stage'' = map_option VInt stage"
      "dict_get payload ''progress'' = map_option (\<lambda>n. VInt 0) stage"
      "\<forall>f. field = Some f \<longrightarrow>
          dict_get payload f = dict_get (classify_error ex None) ''technical_details''"
    by blast
  from post eq have p: "post = [SendWebhook payload (deliver self payload)]" by simp
  have evq: "\<not> is_failure_webhook ev"
    using raised by (cases ev) simp_all
  have fl: "filter is_failure_webhook (fst run) = [SendWebhook payload (deliver self payload)]"
    using split pre evq p st by simp
  from res pre st facts p fl show ?thesis by blast
qed

lemma person_submission_fails_full_run:
  "generate_ugc_video person_submission_fails ''g1'' ''u1'' ''ADVANCED''
       ''https://s3.example/product.png'' ''hello'' (Some ''a woman'') None None ''FAST'' 8 ''9:16'' =
     ([SendWebhook
         [(''generation_id'', VStr ''g1''), (''stage'', VInt 1), (''status'', VStr ''processing''),
          (''message'', VStr ''Generating AI person...'')]
         (Discarded settings_attribute_error),
       SubmitTextToImageJob (text_to_image (Some ''a woman''))
         (Inl (Exception ''Fal Seedream text-to-image failed: 503'')),
       SendWebhook
         [(''generation_id'', VStr ''g1''), (''status'', VStr ''FAILED''),
          (''error_type'', VErrorType SERVICE_ERROR),
          (''error_message'',
           VStr ''The AI service is temporarily unavailable. Your credits will be refunded.''),
          (''is_refundable'', VBool True), (''can_retry'', VBool True)]
         (Discarded settings_attribute_error)],
      Inl (Exception ''Fal Seedream text-to-image failed: 503''))"
  by code_simp

lemma person_submission_fails_person_only:
  "generate_person_only person_submission_fails ''g1'' ''u1'' ''ADVANCED'' (Some ''a woman'') None =
     ([SubmitTextToImageJob (text_to_image (Some ''a woman''))
         (Inl (Exception ''Fal Seedream text-to-image failed: 503'')),
       SendWebhook
         [(''generation_id'', VStr ''g1''), (''status'', VStr ''FAILED''),
          (''error_type'', VErrorType SERVICE_ERROR),
          (''error_message'',
           VStr ''The AI service is temporarily unavailable. Your credits will be refunded.''),
          (''is_refundable'', VBool True), (''can_retry'', VBool True),
          (''current_stage'', VInt 1), (''progress'', VInt 0),
          (''stage1_error'', VStr ''Fal Seedream text-to-image failed: 503'')]
         (Discarded settings_attribute_error)],
      Inl (Exception ''Fal Seedream text-to-image failed: 503''))"
  by code_simp

text \<open>
  Claim C5, as stated: on every entry point the failure webhook carries the number of the
  stage that was running. The full run passes \<open>stage=None\<close> to \<open>_send_failure_webhook\<close>
  (\<open># Full pipeline - no specific stage\<close>), and so does the run of stages 1 and 2. Here the
  text-to-image submission of stage 1 raises in a full run: the one failure payload handed
  to \<open>_send_webhook\<close> has the classification and neither \<open>current_stage\<close> nor \<open>stage\<close>.
\<close>

theorem failure_webhook_stage_counterexample:
  "generate_ugc_video person_submission_fails ''g1'' ''u1'' ''ADVANCED''
       ''https://s3.example/product.png'' ''hello'' (Some ''a woman'') None None ''FAST'' 8 ''9:16'' =
     ([SendWebhook
         [(''generation_id'', VStr ''g1''), (''stage'', VInt 1), (''status'', VStr ''processing''),
          (''message'', VStr ''Generating AI person...'')]
         (Discarded settings_attribute_error),
       SubmitTextToImageJob (text_to_image (Some ''a woman''))
         (Inl (Exception ''Fal Seedream text-to-image failed: 503'')),
       SendWebhook
         [(''generation_id'', VStr ''g1''), (''status'', VStr ''FAILED''),
          (''error_type'', VErrorType SERVICE_ERROR),
          (''error_message'',
           VStr ''The AI service is temporarily unavailable. Your credits will be refunded.''),
          (''is_refundable'', VBool True), (''can_retry'', VBool True)]
         (Discarded settings_attribute_error)],
      Inl (Exception ''Fal Seedream text-to-image failed: 503''))
   \<and> dict_get
         [(''generation_id'', VStr ''g1''), (''status'', VStr ''FAILED''),
          (''error_type'', VErrorType SERVICE_ERROR),
          (''error_message'',
           VStr ''The AI service is temporarily unavailable. Your credits will be refunded.''),
          (''is_refundable'', VBool True), (''can_retry'', VBool True)]
         ''current_stage'' = None
   \<and> dict_get
         [(''generation_id'', VStr ''g1''), (''status'', VStr ''FAILED''),
          (''error_type'', VErrorType SERVICE_ERROR),
          (''error_message'',
           VStr ''The AI service is temporarily unavailable. Your credits will be refunded.''),
          (''is_refundable'', VBool True), (''can_retry'', VBool True)]
         ''stage'' = None"
  by (simp add: person_submission_fails_full_run dict_get_def)

text \<open>
  Claim C5, amended. On each of the five entry points, when a stage call (a submission, a
  wait for completion or a storage upload) raises \<open>ex\<close>:

  \<^item> the entry point raises \<open>ex\<close> itself;
  \<^item> no stage call before it raised and no failure webhook was sent before it;
  \<^item> what follows the failing call, \<open>post\<close>, is exactly one call of \<open>_send_webhook\<close> with a
    failure payload, and it is the only failure webhook of the run: no stage call is
    repeated and nothing else happens;
  \<^item> the payload carries the generation id, status \<open>FAILED\<close> and the \<open>error_type\<close>,
    \<open>error_message\<close>, \<open>is_refundable\<close> and \<open>can_retry\<close> of the classification of \<open>ex\<close>;
  \<^item> the single-stage entry points add \<open>current_stage\<close> (1, 2 or 3), \<open>progress\<close> \<open>0\<close> and the
    technical details under \<open>stage1_error\<close>, \<open>stage2_error\<close> or \<open>stage3_error\<close>; the full run
    and the run of stages 1 and 2 add neither a stage number nor a progress.
\<close>

theorem stage_failure_reported:
  assumes "(stage, field, run) \<in>
     {(Some 1, Some ''stage1_error'',
         generate_person_only self generation_id user_id stage1_mode person_prompt person_fields),
      (Some 2, Some ''stage2_error'',
         generate_composite_only self generation_id user_id person_image_url product_image_url
           composite_prompt),
      (Some 3, Some ''stage3_error'',
         generate_video_only self generation_id user_id composite_image_url video_prompt
           veo3_mode duration aspect_ratio optional_product_image_url),
      (None, None,
         generate_ugc_video self generation_id user_id stage1_mode product_image_url
           video_prompt person_prompt person_fields composite_prompt veo3_mode duration
           aspect_ratio),
      (None, None,
         generate_person_and_composite self generation_id user_id stage1_mode person_prompt
           person_fields product_image_url composite_prompt)}"
      and "fst run = pre @ ev # post"
      and "stage_raised ev = Some ex"
  shows "snd run = Inl ex
       \<and> (\<forall>ev' \<in> set pre. stage_raised ev' = None \<and> \<not> is_failure_webhook ev')
       \<and> (\<exists>payload.
             post = [SendWebhook payload (deliver self payload)]
           \<and> filter is_failure_webhook (fst run) = [SendWebhook payload (deliver self payload)]
           \<and> dict_get payload ''generation_id'' = Some (VStr generation_id)
           \<and> dict_get payload ''status'' = Some (VStr ''FAILED'')
           \<and> dict_get payload ''error_type'' = dict_get (classify_error ex None) ''error_type''
           \<and> dict_get payload ''error_message'' = dict_get (classify_error ex None) ''error_message''
           \<and> dict_get payload ''is_refundable'' = dict_get (classify_error ex None) ''is_refundable''
           \<and> dict_get payload ''can_retry'' = dict_get (classify_error ex None) ''can_retry''
           \<and> dict_get payload ''current_stage'' = map_option VInt stage
           \<and> dict_get payload ''progress'' = map_option (\<lambda>n. VInt 0) stage
           \<and> (\<forall>f. field = Some f \<longrightarrow>
                  dict_get payload f = dict_get (classify_error ex None) ''technical_details''))"
proof -
  from assms(1) consider
      (person) "stage = Some 1" "field = Some ''stage1_error''"
        "run = generate_person_only self generation_id user_id stage1_mode person_prompt
                 person_fields"
    | (composite) "stage = Some 2" "field = Some ''stage2_error''"
        "run = generate_composite_only self generation_id user_id person_image_url
                 product_image_url composite_prompt"
    | (video) "stage = Some 3" "field = Some ''stage3_error''"
        "run = generate_video_only self generation_id user_id composite_image_url video_prompt
                 veo3_mode duration aspect_ratio optional_product_image_url"
    | (full) "stage = None" "field = None"
        "run = generate_ugc_video self generation_id user_id stage1_mode product_image_url
                 video_prompt person_prompt person_fields composite_prompt veo3_mode duration
                 aspect_ratio"
    | (two) "stage = None" "field = None"
        "run = generate_person_and_composite self generation_id user_id stage1_mode
                 person_prompt person_fields product_image_url composite_prompt"
    by blast
  then show ?thesis
  proof cases
    case person
    show ?thesis
      by (rule entry_point_failure [OF stops_at_failure_person_only
                no_failure_webhook_person_only _ _ assms(2,3)])
         (simp_all add: person generate_person_only_def)
  next
    case composite
    show ?thesis
      by (rule entry_point_failure [OF stops_at_failure_composite_only
                no_failure_webhook_composite_only _ _ assms(2,3)])
         (simp_all add: composite generate_composite_only_def)
  next
    case video
    show ?thesis
      by (rule entry_point_failure [OF stops_at_failure_video_only
                no_failure_webhook_video_only _ _ assms(2,3)])
         (simp_all add: video generate_video_only_def)
  next
    case full
    show ?thesis
      by (rule entry_point_failure [OF stops_at_failure_ugc no_failure_webhook_ugc
                _ _ assms(2,3)])
         (simp_all add: full generate_ugc_video_def)
  next
    case two
    show ?thesis
      by (rule entry_point_failure [OF stops_at_failure_pc no_failure_webhook_pc
                _ _ assms(2,3)])
         (simp_all add: two generate_person_and_composite_def)
  qed
qed

text \<open>
  The theorem at a concrete run: stage 1 alone, with a text-to-image submission that
  raises. The run raises that exception after one failure webhook, whose payload names
  stage 1; with the settings of the repository the payload is discarded at the lookup of
  the key.
\<close>

theorem stage_failure_reported_witness:
  "snd (generate_person_only person_submission_fails ''g1'' ''u1'' ''ADVANCED''
          (Some ''a woman'') None) =
     Inl (Exception ''Fal Seedream text-to-image failed: 503'')
   \<and> (\<exists>payload.
         dict_get payload ''status'' = Some (VStr ''FAILED'')
       \<and> dict_get payload ''error_type'' =
           dict_get (classify_error (Exception ''Fal Seedream text-to-image failed: 503'') None)
             ''error_type''
       \<and> dict_get payload ''current_stage'' = Some (VInt 1)
       \<and> dict_get payload ''progress'' = Some (VInt 0)
       \<and> filter is_failure_webhook
            (fst (generate_person_only person_submission_fails ''g1'' ''u1'' ''ADVANCED''
                    (Some ''a woman'') None)) =
           [SendWebhook payload (Discarded settings_attribute_error)])"
proof -
  let ?ev = "SubmitTextToImageJob (text_to_image (Some ''a woman''))
               (Inl (Exception ''Fal Seedream text-to-image failed: 503''))"
  let ?post = "[SendWebhook
         [(''generation_id'', VStr ''g1''), (''status'', VStr ''FAILED''),
          (''error_type'', VErrorType SERVICE_ERROR),
          (''error_message'',
           VStr ''The AI service is temporarily unavailable. Your credits will be refunded.''),
          (''is_refundable'', VBool True), (''can_retry'', VBool True),
          (''current_stage'', VInt 1), (''progress'', VInt 0),
          (''stage1_error'', VStr ''Fal Seedream text-to-image failed: 503'')]
         (Discarded settings_attribute_error)]"
  have tr: "fst (generate_person_only person_submission_fails ''g1'' ''u1'' ''ADVANCED''
                   (Some ''a woman'') None) = [] @ ?ev # ?post"
    by (simp add: person_submission_fails_person_only)
  have rs: "stage_raised ?ev = Some (Exception ''Fal Seedream text-to-image failed: 503'')"
    by simp
  have dl: "\<And>d. deliver person_submission_fails d = Discarded settings_attribute_error"
    by (simp add: deliver_def person_submission_fails_def demo_orchestrator_def)
  have mem: "(Some 1, Some ''stage1_error'',
         generate_person_only person_submission_fails ''g1'' ''u1'' ''ADVANCED''
           (Some ''a woman'') None) \<in>
     {(Some 1, Some ''stage1_error'',
         generate_person_only person_submission_fails ''g1'' ''u1'' ''ADVANCED''
           (Some ''a woman'') None),
      (Some 2, Some ''stage2_error'',
         generate_composite_only person_submission_fails ''g1'' ''u1'' [] [] None),
      (Some 3, Some ''stage3_error'',
         generate_video_only person_submission_fails ''g1'' ''u1'' [] [] [] 8 [] None),
      (None, None,
         generate_ugc_video person_submission_fails ''g1'' ''u1'' ''ADVANCED'' [] []
           (Some ''a woman'') None None [] 8 []),
      (None, None,
         generate_person_and_composite person_submission_fails ''g1'' ''u1'' ''ADVANCED''
           (Some ''a woman'') None [] None)}"
    by (simp only: insertI1)
  from stage_failure_reported [OF mem tr rs] obtain payload where
        r: "snd (generate_person_only person_submission_fails ''g1'' ''u1'' ''ADVANCED''
                   (Some ''a woman'') None) =
              Inl (Exception ''Fal Seedream text-to-image failed: 503'')"
    and s: "dict_get payload ''status'' = Some (VStr ''FAILED'')"
    and t: "dict_get payload ''error_type'' =
              dict_get (classify_error (Exception ''Fal Seedream text-to-image failed: 503'') None)
                ''error_type''"
    and c: "dict_get payload ''current_stage'' = map_option VInt (Some 1)"
    and g: "dict_get payload ''progress'' = map_option (\<lambda>n. VInt 0) (Some (1::int))"
    and f: "filter is_failure_webhook
              (fst (generate_person_only person_submission_fails ''g1'' ''u1'' ''ADVANCED''
                      (Some ''a woman'') None)) =
            [SendWebhook payload (deliver person_submission_fails payload)]"
    by blast
  from r s t c g f dl show ?thesis by auto
qed

end
